theory Spec2Isabelle
  imports Complex_Main "HOL-Library.Log_Nat"
begin

section \<open>JavaScript values\<close>

text \<open>
  The symbology module is JavaScript working on objects parsed from JSON. The embedding keeps
  the shapes of those objects as records and datatypes, and writes out every place where the
  source can raise: calling a method on \<open>undefined\<close> or \<open>null\<close>, and the explicit
  \<open>throw\<close> for text symbols. A function that can raise returns \<open>exn + 'a\<close>
  (\<open>Inl\<close> the exception); a function that logs returns its log entries beside its value.

  \<^item> An optional field is an \<open>option\<close>: \<open>None\<close> is \<open>undefined\<close> (the field is absent).
  \<^item> A number is a double, given by the rational it stands for; \<open>JNaN\<close> is what arithmetic
    on \<open>undefined\<close> yields. Comparisons and \<open>Math.min\<close> are exact; every sum, difference
    and quotient is rounded to the nearest double (\<open>roundDouble\<close>). The infinities, and so
    overflow, are outside the model.
  \<^item> The conversions between numbers and strings are builtins of the JavaScript runtime, not
    code of this module; they are the fields of a \<open>jsRuntime\<close> that every function
    needing them takes as its first argument.
  \<^item> Reading a property of a plain object (\<open>{}\<close>, or an object parsed from JSON) that is
    not an own property finds the members of \<open>Object.prototype\<close>; \<open>ProtoMember k\<close>
    is such an inherited member.
\<close>

datatype exn = TypeError | Error string

datatype logEntry = ConsoleWarn string | ConsoleError string "exn option"

datatype 'a jsval = Undefined | Value 'a | ProtoMember string

datatype jsnum = JNaN | JNum rat

record jsRuntime =
  numberToString :: "rat \<Rightarrow> string"
  stringToNumber :: "string \<Rightarrow> jsnum"
  protoMemberToString :: "string \<Rightarrow> string"

definition objectPrototypeKeys :: "string list" where
  "objectPrototypeKeys =
     [''constructor'', ''__defineGetter__'', ''__defineSetter__'', ''hasOwnProperty'',
      ''__lookupGetter__'', ''__lookupSetter__'', ''isPrototypeOf'', ''propertyIsEnumerable'',
      ''toString'', ''valueOf'', ''__proto__'', ''toLocaleString'']"

text \<open>\<open>obj[k]\<close> on a plain object whose own properties are the map \<open>obj\<close>.\<close>

definition getProperty :: "(string \<rightharpoonup> 'a) \<Rightarrow> string \<Rightarrow> 'a jsval" where
  "getProperty obj k =
     (case obj k of
        Some v \<Rightarrow> Value v
      | None \<Rightarrow> if k \<in> set objectPrototypeKeys then ProtoMember k else Undefined)"

text \<open>
  \<open>obj[k] = v\<close> on a plain object, for a string \<open>v\<close>: the key \<open>__proto__\<close> reaches the
  setter of \<open>Object.prototype\<close>, which ignores a value that is not an object.
\<close>

definition setProperty :: "(string \<rightharpoonup> 'a) \<Rightarrow> string \<Rightarrow> 'a \<Rightarrow> (string \<rightharpoonup> 'a)" where
  "setProperty obj k v = (if k = ''__proto__'' then obj else obj(k \<mapsto> v))"

text \<open>A possibly absent string used as a property key, or inside a template literal.\<close>

definition strOrUndefined :: "string option \<Rightarrow> string" where
  "strOrUndefined s = (case s of None \<Rightarrow> ''undefined'' | Some t \<Rightarrow> t)"

text \<open>Truthiness of a possibly absent string: \<open>undefined\<close> and \<open>''\<close> are falsy.\<close>

definition truthy :: "string option \<Rightarrow> bool" where
  "truthy s = (case s of None \<Rightarrow> False | Some t \<Rightarrow> t \<noteq> [])"

definition toStr :: "jsRuntime \<Rightarrow> string jsval \<Rightarrow> string" where
  "toStr rt v =
     (case v of
        Undefined \<Rightarrow> ''undefined''
      | Value s \<Rightarrow> s
      | ProtoMember k \<Rightarrow> protoMemberToString rt k)"

definition numToString :: "jsRuntime \<Rightarrow> jsnum \<Rightarrow> string" where
  "numToString rt n = (case n of JNaN \<Rightarrow> ''NaN'' | JNum q \<Rightarrow> numberToString rt q)"

definition ofOpt :: "rat option \<Rightarrow> jsnum" where
  "ofOpt n = (case n of None \<Rightarrow> JNaN | Some q \<Rightarrow> JNum q)"

text \<open>
  Rounding to the nearest double, ties to the even significand: a double has 53 significant
  bits, so the doubles around \<open>x\<close> are the multiples of \<open>2^(e - 52)\<close>, where \<open>2^e\<close> is the
  power of two with \<open>2^e \<le> |x| < 2^(e + 1)\<close>, and \<open>e\<close> is not taken below \<open>-1022\<close>
  (the subnormal numbers).
\<close>

definition roundEven :: "rat \<Rightarrow> int" where
  "roundEven x =
     (let f = \<lfloor>x\<rfloor>; r = x - of_int f
      in if r < 1 / 2 then f else if 1 / 2 < r then f + 1 else if even f then f else f + 1)"

definition binaryExponent :: "rat \<Rightarrow> int" where
  "binaryExponent x =
     (case quotient_of \<bar>x\<bar> of
        (n, d) \<Rightarrow> let e = bitlen n - bitlen d in if 2 powi e \<le> \<bar>x\<bar> then e else e - 1)"

definition roundDouble :: "rat \<Rightarrow> rat" where
  "roundDouble x =
     (if x = 0 then 0
      else let step = 2 powi (max (binaryExponent x) (- 1022) - 52)
           in of_int (roundEven (x / step)) * step)"

definition lift2 :: "(rat \<Rightarrow> rat \<Rightarrow> rat) \<Rightarrow> jsnum \<Rightarrow> jsnum \<Rightarrow> jsnum" where
  "lift2 f a b = (case a of JNaN \<Rightarrow> JNaN | JNum x \<Rightarrow> (case b of JNaN \<Rightarrow> JNaN | JNum y \<Rightarrow> JNum (f x y)))"

definition js_add :: "jsnum \<Rightarrow> jsnum \<Rightarrow> jsnum" where
  "js_add = lift2 (\<lambda>x y. roundDouble (x + y))"

definition js_sub :: "jsnum \<Rightarrow> jsnum \<Rightarrow> jsnum" where
  "js_sub = lift2 (\<lambda>x y. roundDouble (x - y))"

text \<open>The module only divides by the literal 2.\<close>

definition js_half :: "jsnum \<Rightarrow> jsnum" where
  "js_half a = lift2 (\<lambda>x y. roundDouble (x / y)) a (JNum 2)"

definition Math_min :: "jsnum \<Rightarrow> jsnum \<Rightarrow> jsnum" where
  "Math_min = lift2 min"

text \<open>The relational operators on numbers: every comparison with \<open>NaN\<close> is false.\<close>

definition js_lt :: "jsnum \<Rightarrow> jsnum \<Rightarrow> bool" where
  "js_lt a b = (case a of JNaN \<Rightarrow> False | JNum x \<Rightarrow> (case b of JNaN \<Rightarrow> False | JNum y \<Rightarrow> x < y))"

definition js_gt :: "jsnum \<Rightarrow> jsnum \<Rightarrow> bool" where
  "js_gt a b = js_lt b a"

definition js_le :: "jsnum \<Rightarrow> jsnum \<Rightarrow> bool" where
  "js_le a b = (case a of JNaN \<Rightarrow> False | JNum x \<Rightarrow> (case b of JNaN \<Rightarrow> False | JNum y \<Rightarrow> x \<le> y))"

section \<open>Constants of the module\<close>

definition maxW :: rat where "maxW = 32"

definition maxH :: rat where "maxH = 32"

definition SIMPLE :: string where "SIMPLE = ''simple''"

definition UNIQUE_VALUE :: string where "UNIQUE_VALUE = ''uniqueValue''"

definition CLASS_BREAKS :: string where "CLASS_BREAKS = ''classBreaks''"

definition emptySVG :: string where
  "emptySVG = ''<svg xmlns='http://www.w3.org/2000/svg' width='32' height='32'></svg>''"

section \<open>Symbols, renderers, legends, attributes\<close>

text \<open>
  The objects are typed as the server JSON form types them: names, labels, styles, paths and
  image data are strings, sizes, widths, angles and bounds are numbers, a colour is an array
  of numbers, the value of a unique-value entry is a string, and the entries of a renderer
  are arrays of objects. A field of these objects is absent or has a value of its type;
  \<open>null\<close> is modelled where the module is documented to meet it, as the value of a feature
  attribute.

  An ESRI symbol in server JSON form. The outline of a marker or fill symbol is a symbol.
\<close>

datatype symbol = Symbol
  (sym_type: "string option")
  (sym_style: "string option")
  (sym_color: "rat list option")
  (sym_outline: "symbol option")
  (sym_size: "rat option")
  (sym_angle: "rat option")
  (sym_path: "string option")
  (sym_width: "rat option")
  (sym_imageData: "string option")
  (sym_contentType: "string option")

record uniqueValueInfo =
  uvi_value :: string
  uvi_label :: "string option"
  uvi_symbol :: "symbol option"
  uvi_imageUrl :: "string jsval"

record classBreakInfo =
  cbi_maxValue :: "rat option"
  cbi_label :: "string option"
  cbi_symbol :: "symbol option"
  cbi_imageUrl :: "string jsval"

text \<open>
  A renderer in server JSON form. The two entry lists are arrays (empty for a renderer of
  another kind); \<open>imageUrl\<close> and \<open>defaultImageUrl\<close> are the fields the enhancement adds,
  \<open>Undefined\<close> before it.
\<close>

record renderer =
  r_type :: "string option"
  r_symbol :: "symbol option"
  r_label :: "string option"
  r_imageUrl :: "string jsval"
  field1 :: "string option"
  field2 :: "string option"
  field3 :: "string option"
  uniqueValueInfos :: "uniqueValueInfo list"
  r_field :: "string option"
  minValue :: "rat option"
  classBreakInfos :: "classBreakInfo list"
  defaultSymbol :: "symbol option"
  defaultLabel :: "string option"
  defaultImageUrl :: "string jsval"

record legendItem =
  li_label :: "string option"
  li_imageData :: "string option"
  li_contentType :: "string option"
  li_base :: string

record legendLayer =
  layerId :: int
  legend :: "legendItem list"

record legendObj =
  layers :: "legendLayer list"

text \<open>Feature attributes: own properties of a plain object, each a string, a number or null.\<close>

datatype attrval = AStr string | ANum rat | ANull

type_synonym attributes = "string \<rightharpoonup> attrval"

text \<open>What \<open>searchRenderer\<close> returns: \<open>symbol\<close> starts as the empty object \<open>{}\<close>.\<close>

datatype symbolResult = EmptyObject | SymbolVal "symbol option"

record renderInfo =
  ri_imageUrl :: "string jsval"
  ri_symbol :: symbolResult

section \<open>\<open>enhanceRenderer\<close>\<close>

text \<open>The data URL of one legend item: \<open>data:${contentType}${base},${imageData}\<close>.\<close>

definition dataUrl :: "legendItem \<Rightarrow> string" where
  "dataUrl legItem =
     ''data:'' @ strOrUndefined (li_contentType legItem) @ li_base legItem @ '','' @
     strOrUndefined (li_imageData legItem)"

text \<open>
  The lookup object from legend labels to data URLs, filled by the \<open>forEach\<close> over the
  legend items in order: a later item with the same label overwrites an earlier one.
\<close>

definition legendLookup :: "legendItem list \<Rightarrow> (string \<rightharpoonup> string)" where
  "legendLookup items =
     foldl (\<lambda>lookup legItem. setProperty lookup (strOrUndefined (li_label legItem)) (dataUrl legItem))
       Map.empty items"

text \<open>
  The renderer is modified in place; the model returns the modified renderer. The only
  place that can raise is \<open>legend.layers[0].legend\<close> on an empty \<open>layers\<close> array, before
  anything is written.
\<close>

definition enhanceRenderer :: "renderer \<Rightarrow> legendObj \<Rightarrow> exn + renderer \<times> logEntry list" where
  "enhanceRenderer renderer legendO =
     (case layers legendO of
        [] \<Rightarrow> Inl TypeError
      | layer0 # _ \<Rightarrow>
          (let lookup = legendLookup (legend layer0) in
           if r_type renderer = Some SIMPLE then
             Inr (renderer\<lparr>r_imageUrl := getProperty lookup (strOrUndefined (r_label renderer))\<rparr>, [])
           else if r_type renderer = Some UNIQUE_VALUE then
             (let r1 = (if truthy (defaultLabel renderer)
                        then renderer\<lparr>defaultImageUrl :=
                               getProperty lookup (strOrUndefined (defaultLabel renderer))\<rparr>
                        else renderer)
              in Inr (r1\<lparr>uniqueValueInfos :=
                          map (\<lambda>uvi. uvi\<lparr>uvi_imageUrl :=
                                        getProperty lookup (strOrUndefined (uvi_label uvi))\<rparr>)
                            (uniqueValueInfos r1)\<rparr>, []))
           else if r_type renderer = Some CLASS_BREAKS then
             (let r1 = (if truthy (defaultLabel renderer)
                        then renderer\<lparr>defaultImageUrl :=
                               getProperty lookup (strOrUndefined (defaultLabel renderer))\<rparr>
                        else renderer)
              in Inr (r1\<lparr>classBreakInfos :=
                          map (\<lambda>cbi. cbi\<lparr>cbi_imageUrl :=
                                        getProperty lookup (strOrUndefined (cbi_label cbi))\<rparr>)
                            (classBreakInfos r1)\<rparr>, []))
           else
             Inr (renderer,
                  [ConsoleWarn (''encountered unsupported renderer type: '' @
                                strOrUndefined (r_type renderer))])))"

section \<open>\<open>searchRenderer\<close>\<close>

text \<open>The value of an attribute converted to a string, as string concatenation does.\<close>

definition attrToString :: "jsRuntime \<Rightarrow> attrval jsval \<Rightarrow> string" where
  "attrToString rt v =
     (case v of
        Undefined \<Rightarrow> ''undefined''
      | Value ANull \<Rightarrow> ''null''
      | Value (ANum n) \<Rightarrow> numberToString rt n
      | Value (AStr s) \<Rightarrow> s
      | ProtoMember k \<Rightarrow> protoMemberToString rt k)"

text \<open>
  \<open>if (typeof graphicKey !== 'string') { graphicKey = graphicKey.toString(); }\<close>:
  the method call raises on \<open>undefined\<close> and on \<open>null\<close>.
\<close>

definition keyToString :: "jsRuntime \<Rightarrow> attrval jsval \<Rightarrow> exn + string" where
  "keyToString rt graphicKey =
     (case graphicKey of
        Value (AStr s) \<Rightarrow> Inr s
      | Undefined \<Rightarrow> Inl TypeError
      | Value ANull \<Rightarrow> Inl TypeError
      | _ \<Rightarrow> Inr (attrToString rt graphicKey))"

text \<open>The value of an attribute converted to a number, as a comparison with a number does.\<close>

definition attrToNumber :: "jsRuntime \<Rightarrow> attrval jsval \<Rightarrow> jsnum" where
  "attrToNumber rt v =
     (case v of
        Undefined \<Rightarrow> JNaN
      | Value ANull \<Rightarrow> JNum 0
      | Value (ANum n) \<Rightarrow> JNum n
      | Value (AStr s) \<Rightarrow> stringToNumber rt s
      | ProtoMember k \<Rightarrow> stringToNumber rt (protoMemberToString rt k))"

text \<open>
  \<open>minSplits\<close>: the upper bounds of the entries, with \<open>lower - 1\<close> spliced in at the start.
\<close>

definition minSplits :: "renderer \<Rightarrow> jsnum list" where
  "minSplits renderer =
     js_sub (ofOpt (minValue renderer)) (JNum 1) #
     map (\<lambda>cbi. ofOpt (cbi_maxValue cbi)) (classBreakInfos renderer)"

text \<open>
  \<open>classBreakInfos.find((cbi, index) => gVal > minSplits[index] && gVal <= cbi.maxValue)\<close>
\<close>

definition findBreak :: "jsnum \<Rightarrow> renderer \<Rightarrow> classBreakInfo option" where
  "findBreak gVal renderer =
     map_option snd
       (List.find
          (\<lambda>(index, cbi). js_gt gVal (minSplits renderer ! index) \<and>
                           js_le gVal (ofOpt (cbi_maxValue cbi)))
          (zip [0..<length (classBreakInfos renderer)] (classBreakInfos renderer)))"

definition searchRenderer ::
  "jsRuntime \<Rightarrow> attributes \<Rightarrow> renderer \<Rightarrow> exn + renderInfo \<times> logEntry list" where
  "searchRenderer rt attributes renderer =
     (if r_type renderer = Some SIMPLE then
        Inr (\<lparr>ri_imageUrl = r_imageUrl renderer, ri_symbol = SymbolVal (r_symbol renderer)\<rparr>, [])
      else if r_type renderer = Some UNIQUE_VALUE then
        (case keyToString rt (getProperty attributes (strOrUndefined (field1 renderer))) of
           Inl e \<Rightarrow> Inl e
         | Inr key1 \<Rightarrow>
             (let graphicKey =
                (if truthy (field2 renderer) then
                   (let key2 = key1 @ '', '' @
                          attrToString rt (getProperty attributes (strOrUndefined (field2 renderer)))
                    in if truthy (field3 renderer) then
                         key2 @ '', '' @
                         attrToString rt (getProperty attributes (strOrUndefined (field3 renderer)))
                       else key2)
                 else key1)
              in case List.find (\<lambda>uvi. uvi_value uvi = graphicKey) (uniqueValueInfos renderer) of
                   Some uvi \<Rightarrow>
                     Inr (\<lparr>ri_imageUrl = uvi_imageUrl uvi,
                           ri_symbol = SymbolVal (uvi_symbol uvi)\<rparr>, [])
                 | None \<Rightarrow>
                     Inr (\<lparr>ri_imageUrl = defaultImageUrl renderer,
                           ri_symbol = SymbolVal (defaultSymbol renderer)\<rparr>, [])))
      else if r_type renderer = Some CLASS_BREAKS then
        (let gVal = attrToNumber rt (getProperty attributes (strOrUndefined (r_field renderer)));
             lower = ofOpt (minValue renderer);
             dflt = \<lparr>ri_imageUrl = defaultImageUrl renderer,
                     ri_symbol = SymbolVal (defaultSymbol renderer)\<rparr>
         in if js_lt gVal lower then Inr (dflt, [])
            else (case findBreak gVal renderer of
                    None \<Rightarrow> Inr (dflt, [])
                  | Some cbi \<Rightarrow>
                      Inr (\<lparr>ri_imageUrl = cbi_imageUrl cbi,
                            ri_symbol = SymbolVal (cbi_symbol cbi)\<rparr>, [])))
      else
        Inr (\<lparr>ri_imageUrl = Value [], ri_symbol = EmptyObject\<rparr>,
             [ConsoleWarn (''Unknown renderer type encountered - '' @
                           strOrUndefined (r_type renderer))]))"

definition getGraphicIcon :: "jsRuntime \<Rightarrow> attributes \<Rightarrow> renderer \<Rightarrow> exn + string jsval" where
  "getGraphicIcon rt attributes renderer =
     (case searchRenderer rt attributes renderer of
        Inl e \<Rightarrow> Inl e
      | Inr (renderInfo, _) \<Rightarrow> Inr (ri_imageUrl renderInfo))"

definition getGraphicSymbol :: "jsRuntime \<Rightarrow> attributes \<Rightarrow> renderer \<Rightarrow> exn + symbolResult" where
  "getGraphicSymbol rt attributes renderer =
     (case searchRenderer rt attributes renderer of
        Inl e \<Rightarrow> Inl e
      | Inr (renderInfo, _) \<Rightarrow> Inr (ri_symbol renderInfo))"

section \<open>Drawing a symbol as SVG\<close>

definition elemStr :: "jsRuntime \<Rightarrow> rat list \<Rightarrow> nat \<Rightarrow> string" where
  "elemStr rt c i = (if i < length c then numberToString rt (c ! i) else ''undefined'')"

definition colourToRgb :: "jsRuntime \<Rightarrow> rat list option \<Rightarrow> string" where
  "colourToRgb rt c =
     (case c of
        Some a \<Rightarrow> ''rgb('' @ elemStr rt a 0 @ '','' @ elemStr rt a 1 @ '','' @ elemStr rt a 2 @ '')''
      | None \<Rightarrow> ''none'')"

text \<open>\<open>c[3].toString()\<close> raises when the colour array has no fourth component.\<close>

definition colourToOpacity :: "jsRuntime \<Rightarrow> rat list option \<Rightarrow> exn + string" where
  "colourToOpacity rt c =
     (case c of
        Some a \<Rightarrow> if 3 < length a then Inr (numberToString rt (a ! 3)) else Inl TypeError
      | None \<Rightarrow> Inr ''0'')"

record svg =
  props :: "(string \<times> string jsval) list"
  svgType :: string

definition newSVG :: "string option \<Rightarrow> svg" where
  "newSVG t = \<lparr>props = [], svgType = (case t of None \<Rightarrow> [] | Some s \<Rightarrow> s)\<rparr>"

definition addProp :: "svg \<Rightarrow> string \<Rightarrow> string jsval \<Rightarrow> svg" where
  "addProp mySVG name v = mySVG\<lparr>props := props mySVG @ [(name, v)]\<rparr>"

definition dquote :: string where
  "dquote = [CHR 0x22]"

definition belch :: "jsRuntime \<Rightarrow> svg \<Rightarrow> string" where
  "belch rt mySVG =
     ''<'' @ svgType mySVG @
     foldl (\<lambda>prev curr. prev @ '' '' @ fst curr @ ''='' @ dquote @ toStr rt (snd curr) @ dquote)
       [] (props mySVG) @
     '' />''"

definition applyFill :: "jsRuntime \<Rightarrow> symbol \<Rightarrow> svg \<Rightarrow> exn + svg" where
  "applyFill rt symbol s =
     (let fill = (if sym_type symbol = Some ''esriSFS'' \<and> sym_style symbol \<noteq> Some ''esriSFSSolid''
                  then ''none'' else colourToRgb rt (sym_color symbol));
          s1 = addProp s ''fill'' (Value fill)
      in case colourToOpacity rt (sym_color symbol) of
           Inl e \<Rightarrow> Inl e
         | Inr opacity \<Rightarrow>
             Inr (addProp (addProp s1 ''fill-opacity'' (Value opacity)) ''fill-rule'' (Value ''evenodd'')))"

definition dashMap :: "string \<rightharpoonup> string" where
  "dashMap = map_of
     [(''esriSLSSolid'', ''none''),
      (''esriSLSDash'', ''5.333,4''),
      (''esriSLSDashDot'', ''5.333,4,1.333,4''),
      (''esriSLSLongDashDotDot'', ''10.666,4,1.333,4,1.333,4''),
      (''esriSLSDot'', ''1.333,4''),
      (''esriSLSLongDash'', ''10.666,4''),
      (''esriSLSLongDashDot'', ''10.666,4,1.333,4''),
      (''esriSLSShortDash'', ''5.333,1.333''),
      (''esriSLSShortDashDot'', ''5.333,1.333,1.333,1.333''),
      (''esriSLSShortDashDotDot'', ''5.333,1.333,1.333,1.333,1.333,1.333''),
      (''esriSLSShortDot'', ''1.333,1.333''),
      (''esriSLSNull'', ''none'')]"

text \<open>
  \<open>applyLine\<close> raises when the line symbol is absent (\<open>lineSymbol.style\<close>), when its colour
  has no fourth component, and when it has no width (\<open>lineSymbol.width.toString()\<close>).
\<close>

definition applyLine :: "jsRuntime \<Rightarrow> symbol option \<Rightarrow> svg \<Rightarrow> exn + svg" where
  "applyLine rt lineSymbol s =
     (case lineSymbol of
        None \<Rightarrow> Inl TypeError
      | Some ls \<Rightarrow>
          (let stroke = (if sym_style ls = Some ''esriSLSNull'' then ''none''
                         else colourToRgb rt (sym_color ls));
               s1 = addProp s ''stroke'' (Value stroke)
           in case colourToOpacity rt (sym_color ls) of
                Inl e \<Rightarrow> Inl e
              | Inr opacity \<Rightarrow>
                  (case sym_width ls of
                     None \<Rightarrow> Inl TypeError
                   | Some w \<Rightarrow>
                       (let s2 = addProp s1 ''stroke-opacity'' (Value opacity);
                            s3 = addProp s2 ''stroke-width'' (Value (numberToString rt w));
                            s4 = addProp s3 ''stroke-linecap'' (Value ''butt'');
                            s5 = addProp s4 ''stroke-linejoin'' (Value ''miter'');
                            s6 = addProp s5 ''stroke-miterlimit'' (Value ''4'')
                        in Inr (addProp s6 ''stroke-dasharray''
                                  (getProperty dashMap (strOrUndefined (sym_style ls))))))))"

text \<open>\<open>symbol.angle || 0\<close>\<close>

definition applyRotation :: "jsRuntime \<Rightarrow> symbol \<Rightarrow> svg \<Rightarrow> svg" where
  "applyRotation rt symbol s =
     (let angle = (case sym_angle symbol of None \<Rightarrow> 0 | Some a \<Rightarrow> if a = 0 then 0 else a)
      in addProp s ''transform''
           (Value (''rotate('' @ numberToString rt angle @ '','' @ numberToString rt (maxW / 2) @
                   '','' @ numberToString rt (maxH / 2) @ '')'')))"

text \<open>The radius of a circle marker: \<open>Math.min(symbol.size / 2, (maxW - 4) / 2)\<close>.\<close>

definition circleRadius :: "rat option \<Rightarrow> jsnum" where
  "circleRadius sz = Math_min (js_half (ofOpt sz)) (JNum ((maxW - 4) / 2))"

definition makeCircleSVG :: "jsRuntime \<Rightarrow> symbol \<Rightarrow> svg" where
  "makeCircleSVG rt symbol =
     (let c0 = newSVG (Some ''circle'');
          c1 = addProp c0 ''r'' (Value (numToString rt (circleRadius (sym_size symbol))));
          c2 = addProp c1 ''cx'' (Value (numberToString rt (maxW / 2)))
      in addProp c2 ''cy'' (Value (numberToString rt (maxH / 2))))"

record glyphCorners =
  upLeft :: jsnum
  loRite :: jsnum
  middle :: jsnum

definition getGlyphCorners :: "rat option \<Rightarrow> glyphCorners" where
  "getGlyphCorners sz =
     (let trimSize = Math_min (ofOpt sz) (JNum (maxW - 4));
          offset = js_half trimSize;
          mid = JNum (maxW / 2)
      in \<lparr>upLeft = js_sub mid offset, loRite = js_add mid offset, middle = mid\<rparr>)"

text \<open>One point \<open>${x},${y}\<close> of a path.\<close>

definition pt :: "jsRuntime \<Rightarrow> jsnum \<Rightarrow> jsnum \<Rightarrow> string" where
  "pt rt x y = numToString rt x @ '','' @ numToString rt y"

definition makeGlyphSVG :: "jsRuntime \<Rightarrow> symbol \<Rightarrow> svg" where
  "makeGlyphSVG rt symbol =
     (let path =
        (if sym_style symbol = Some ''esriSMSPath'' then
           (case sym_path symbol of None \<Rightarrow> Undefined | Some p \<Rightarrow> Value p)
         else
           (let c = getGlyphCorners (sym_size symbol);
                ul = upLeft c; lr = loRite c; m = middle c
            in if sym_style symbol = Some ''esriSMSCross'' then
                 Value (''M '' @ pt rt ul m @ '' '' @ pt rt lr m @ '' M '' @ pt rt m lr @
                        '' '' @ pt rt m ul)
               else if sym_style symbol = Some ''esriSMSDiamond'' then
                 Value (''M '' @ pt rt ul m @ '' '' @ pt rt m lr @ '' '' @ pt rt lr m @
                        '' '' @ pt rt m ul @ '' Z'')
               else if sym_style symbol = Some ''esriSMSSquare'' then
                 Value (''M '' @ pt rt ul ul @ '' '' @ pt rt ul lr @ '' '' @ pt rt lr lr @
                        '' '' @ pt rt lr ul @ '' Z'')
               else if sym_style symbol = Some ''esriSMSX'' then
                 Value (''M '' @ pt rt ul ul @ '' '' @ pt rt lr lr @ '' M '' @ pt rt ul lr @
                        '' '' @ pt rt lr ul)
               else if sym_style symbol = Some ''esriSMSTriangle'' then
                 Value (''M '' @ pt rt ul lr @ '' '' @ pt rt m ul @ '' '' @ pt rt lr lr @ '' Z'')
               else Undefined))
      in addProp (newSVG (Some ''path'')) ''d'' path)"

definition makeMarkerSVG :: "jsRuntime \<Rightarrow> symbol \<Rightarrow> exn + svg" where
  "makeMarkerSVG rt symbol =
     (let s = (if sym_style symbol = Some ''esriSMSCircle'' then makeCircleSVG rt symbol
               else makeGlyphSVG rt symbol)
      in case applyLine rt (sym_outline symbol) s of
           Inl e \<Rightarrow> Inl e
         | Inr s1 \<Rightarrow>
             (case applyFill rt symbol s1 of
                Inl e \<Rightarrow> Inl e
              | Inr s2 \<Rightarrow> Inr (applyRotation rt symbol s2)))"

definition makePolySVG :: "jsRuntime \<Rightarrow> symbol \<Rightarrow> exn + svg" where
  "makePolySVG rt symbol =
     (let p0 = newSVG (Some ''rect'');
          p1 = addProp p0 ''x'' (Value ''4'');
          p2 = addProp p1 ''y'' (Value ''4'');
          p3 = addProp p2 ''width'' (Value (numberToString rt (maxW - 8)));
          p4 = addProp p3 ''height'' (Value (numberToString rt (maxH - 8)))
      in case applyFill rt symbol p4 of
           Inl e \<Rightarrow> Inl e
         | Inr p5 \<Rightarrow> applyLine rt (sym_outline symbol) p5)"

definition makeLineSVG :: "jsRuntime \<Rightarrow> symbol \<Rightarrow> exn + svg" where
  "makeLineSVG rt symbol =
     (let l0 = newSVG (Some ''path'');
          l1 = addProp l0 ''d''
                 (Value (''M 4,4 '' @ numberToString rt (maxW - 4) @ '','' @
                         numberToString rt (maxH - 4)))
      in applyLine rt (Some symbol) l1)"

text \<open>\<open>.replace(/"/g, `'`)\<close>\<close>

definition replaceQuotes :: "string \<Rightarrow> string" where
  "replaceQuotes str = map (\<lambda>ch. if ch = CHR 0x22 then CHR 0x27 else ch) str"

text \<open>
  \<open>typeHandler[symbol.type](symbol)\<close>: for a type that is not one of the four keys the
  lookup gives nothing that returns an SVG object, and the call or the \<open>belch\<close> after it
  raises a \<open>TypeError\<close>.
\<close>

definition makeSVG :: "jsRuntime \<Rightarrow> symbol \<Rightarrow> exn + string" where
  "makeSVG rt symbol =
     (let head = ''<svg xmlns='' @ dquote @ ''http://www.w3.org/2000/svg'' @ dquote @
                 '' width='' @ dquote @ numberToString rt maxW @ dquote @
                 '' height='' @ dquote @ numberToString rt maxH @ dquote @ ''>'';
          foot = ''</svg>'';
          drawn = (if sym_type symbol = Some ''esriSMS'' then makeMarkerSVG rt symbol
                   else if sym_type symbol = Some ''esriSLS'' then makeLineSVG rt symbol
                   else if sym_type symbol = Some ''esriCLS'' then makeLineSVG rt symbol
                   else if sym_type symbol = Some ''esriSFS'' then makePolySVG rt symbol
                   else Inl TypeError)
      in case drawn of
           Inl e \<Rightarrow> Inl e
         | Inr s \<Rightarrow> Inr (replaceQuotes (head @ belch rt s @ foot)))"

section \<open>Building a legend\<close>

text \<open>
  The body of the \<open>try\<close> block of \<open>symbolToLegend\<close>, on the local variables \<open>imageData\<close>,
  \<open>contentType\<close> and \<open>base\<close> (kept in a legend item): it returns them as they are when
  the block ends or raises, and the exception if one was raised. Reading \<open>symbol.type\<close> of
  an absent symbol raises inside the block.
\<close>

definition symbolToLegend_try ::
  "jsRuntime \<Rightarrow> symbol option \<Rightarrow> legendItem \<Rightarrow> legendItem \<times> exn option" where
  "symbolToLegend_try rt symbol vars =
     (case symbol of
        None \<Rightarrow> (vars, Some TypeError)
      | Some sy \<Rightarrow>
          if sym_type sy \<in> {Some ''esriSMS'', Some ''esriSLS'', Some ''esriSFS'', Some ''esriCLS''} then
            (case makeSVG rt sy of
               Inl e \<Rightarrow> (vars, Some e)
             | Inr img \<Rightarrow> (vars\<lparr>li_imageData := Some img\<rparr>, None))
          else if sym_type sy \<in> {Some ''esriPMS'', Some ''esriPFS''} then
            (vars\<lparr>li_imageData := sym_imageData sy,
                   li_contentType := sym_contentType sy,
                   li_base := '';base64''\<rparr>, None)
          else if sym_type sy = Some ''esriTS'' then
            (vars, Some (Error ''no support for feature service legend of text symbols''))
          else (vars, None))"

definition symbolToLegend ::
  "jsRuntime \<Rightarrow> symbol option \<Rightarrow> string option \<Rightarrow> legendItem \<times> logEntry list" where
  "symbolToLegend rt symbol label =
     (let vars = \<lparr>li_label = label, li_imageData = Some emptySVG,
                  li_contentType = Some ''image/svg+xml'', li_base = []\<rparr>
      in case symbolToLegend_try rt symbol vars of
           (vars', None) \<Rightarrow> (vars', [])
         | (vars', Some e) \<Rightarrow>
             (vars'\<lparr>li_label := Some ''Error!''\<rparr>,
              [ConsoleError ''Issue encountered when converting symbol to legend image'' (Some e)]))"

text \<open>
  \<open>childList\<close> is given as the pairs \<open>(child.symbol, child.label)\<close> of its items.
  \<open>renderer.defaultLabel || ''\<close> is the default label, or \<open>''\<close> when it is absent.
\<close>

definition scrapeListRenderer ::
  "jsRuntime \<Rightarrow> renderer \<Rightarrow> (symbol option \<times> string option) list \<Rightarrow> legendItem list \<times> logEntry list" where
  "scrapeListRenderer rt renderer childList =
     (let converted = map (\<lambda>child. symbolToLegend rt (fst child) (snd child)) childList;
          legend0 = map fst converted;
          log0 = concat (map snd converted)
      in case defaultSymbol renderer of
           None \<Rightarrow> (legend0, log0)
         | Some d \<Rightarrow>
             (let dflt = symbolToLegend rt (Some d)
                           (Some (case defaultLabel renderer of None \<Rightarrow> [] | Some l \<Rightarrow> l))
              in (legend0 @ [fst dflt], log0 @ snd dflt)))"

definition rendererToLegend :: "jsRuntime \<Rightarrow> renderer \<Rightarrow> int \<Rightarrow> legendObj \<times> logEntry list" where
  "rendererToLegend rt renderer index =
     (let shell = (\<lambda>items. \<lparr>layers = [\<lparr>layerId = index, legend = items\<rparr>]\<rparr>)
      in if r_type renderer = Some SIMPLE then
           (let item = symbolToLegend rt (r_symbol renderer) (r_label renderer)
            in (shell ([] @ [fst item]), snd item))
         else if r_type renderer = Some UNIQUE_VALUE then
           (let scraped = scrapeListRenderer rt renderer
                            (map (\<lambda>uvi. (uvi_symbol uvi, uvi_label uvi)) (uniqueValueInfos renderer))
            in (shell (fst scraped), snd scraped))
         else if r_type renderer = Some CLASS_BREAKS then
           (let scraped = scrapeListRenderer rt renderer
                            (map (\<lambda>cbi. (cbi_symbol cbi, cbi_label cbi)) (classBreakInfos renderer))
            in (shell (fst scraped), snd scraped))
         else
           (shell [],
            [ConsoleError (''encountered unsupported renderer legend type: '' @
                           strOrUndefined (r_type renderer)) None]))"

section \<open>\<open>getZoomLevel\<close>\<close>

record lod =
  scale :: rat

text \<open>\<open>xs[i]\<close>: \<open>None\<close> is the \<open>undefined\<close> read outside the array.\<close>

definition nthOpt :: "'a list \<Rightarrow> int \<Rightarrow> 'a option" where
  "nthOpt xs i = (if 0 \<le> i \<and> i < int (length xs) then Some (xs ! nat i) else None)"

text \<open>
  The \<open>while (!found)\<close> loop, one call per iteration, on the variables \<open>currentLod\<close>,
  \<open>lowLod\<close> and \<open>highLod\<close>. \<open>lods[currentLod].scale\<close> raises when \<open>currentLod\<close> is
  outside the array. The loop may run forever: the result \<open>None\<close> is not returning.
\<close>

partial_function (option) getZoomLevel_loop ::
  "lod list \<Rightarrow> rat \<Rightarrow> int \<Rightarrow> int \<Rightarrow> int \<Rightarrow> (exn + int) option" where
  "getZoomLevel_loop lods scaleLimit currentLod lowLod highLod =
     (case nthOpt lods currentLod of
        None \<Rightarrow> Some (Inl TypeError)
      | Some l \<Rightarrow>
          (let lowLod' = (if scale l \<ge> scaleLimit then currentLod else lowLod);
               highLod' = (if scale l \<ge> scaleLimit then highLod else currentLod);
               currentLod' = (highLod' + lowLod') div 2
           in if highLod' = lowLod' + 1 then Some (Inr currentLod')
              else getZoomLevel_loop lods scaleLimit currentLod' lowLod' highLod'))"

declare getZoomLevel_loop.simps [code]

text \<open>\<open>Math.ceil(lods.length / 2)\<close> is \<open>(length + 1) div 2\<close>.\<close>

definition getZoomLevel :: "lod list \<Rightarrow> rat \<Rightarrow> (exn + int) option" where
  "getZoomLevel lods maxScale =
     (if maxScale = 0 then Some (Inr (int (length lods) - 1))
      else getZoomLevel_loop lods maxScale ((int (length lods) + 1) div 2) 0 (int (length lods) - 1))"

section \<open>The properties in the words of the specification\<close>

text \<open>An index that is inside the array of levels.\<close>

definition inRange :: "lod list \<Rightarrow> int \<Rightarrow> bool" where
  "inRange lods i \<longleftrightarrow> 0 \<le> i \<and> i < int (length lods)"

text \<open>The key attribute of a unique-value renderer is missing or null.\<close>

definition keyMissing :: "attributes \<Rightarrow> renderer \<Rightarrow> bool" where
  "keyMissing attributes renderer \<longleftrightarrow>
     r_type renderer = Some UNIQUE_VALUE \<and>
     getProperty attributes (strOrUndefined (field1 renderer)) \<in> {Undefined, Value ANull}"



text \<open>The result taken from a class-break entry, a unique-value entry, or the default.\<close>

definition breakInfo :: "classBreakInfo \<Rightarrow> renderInfo" where
  "breakInfo cbi = \<lparr>ri_imageUrl = cbi_imageUrl cbi, ri_symbol = SymbolVal (cbi_symbol cbi)\<rparr>"

definition valueInfo :: "uniqueValueInfo \<Rightarrow> renderInfo" where
  "valueInfo uvi = \<lparr>ri_imageUrl = uvi_imageUrl uvi, ri_symbol = SymbolVal (uvi_symbol uvi)\<rparr>"

definition defaultInfo :: "renderer \<Rightarrow> renderInfo" where
  "defaultInfo renderer =
     \<lparr>ri_imageUrl = defaultImageUrl renderer, ri_symbol = SymbolVal (defaultSymbol renderer)\<rparr>"

text \<open>
  The ranges as the specification words them: the lower bounds are \<open>minimum - 1\<close>, a
  difference of doubles, followed by each upper bound except the last; entry \<open>i\<close> holds
  \<open>v\<close> when \<open>lowerBound[i] < v \<le> upperBound[i]\<close>.
\<close>

definition lowerBounds :: "rat \<Rightarrow> rat list \<Rightarrow> rat list" where
  "lowerBounds minimum ubs = roundDouble (minimum - 1) # butlast ubs"

definition inBreak :: "rat \<Rightarrow> rat list \<Rightarrow> rat \<Rightarrow> nat \<Rightarrow> bool" where
  "inBreak minimum ubs v i \<longleftrightarrow> lowerBounds minimum ubs ! i < v \<and> v \<le> ubs ! i"

text \<open>
  The lookup key as the specification words it: the value of \<open>field1\<close> as a string, then
  \<open>, \<close> and the value of \<open>field2\<close> when a second field is configured, then \<open>, \<close> and the
  value of \<open>field3\<close> when a third is configured too.
\<close>

definition compositeKey :: "jsRuntime \<Rightarrow> attributes \<Rightarrow> renderer \<Rightarrow> attrval \<Rightarrow> string" where
  "compositeKey rt attributes renderer v1 =
     attrToString rt (Value v1) @
     (if truthy (field2 renderer) then
        '', '' @ attrToString rt (getProperty attributes (strOrUndefined (field2 renderer))) @
        (if truthy (field3 renderer) then
           '', '' @ attrToString rt (getProperty attributes (strOrUndefined (field3 renderer)))
         else [])
      else [])"

text \<open>
  The branches of a renderer, in the order of the legend, each with the symbol and the
  label that \<open>symbolToLegend\<close> is called with: the single branch of a simple renderer;
  the entries of a unique-value or class-breaks renderer, followed by the default branch
  when a default symbol is configured.
\<close>

definition defaultBranch :: "renderer \<Rightarrow> (symbol option \<times> string option) list" where
  "defaultBranch renderer =
     (case defaultSymbol renderer of
        None \<Rightarrow> []
      | Some d \<Rightarrow> [(Some d, Some (case defaultLabel renderer of None \<Rightarrow> [] | Some l \<Rightarrow> l))])"

definition branches :: "renderer \<Rightarrow> (symbol option \<times> string option) list" where
  "branches renderer =
     (if r_type renderer = Some SIMPLE then [(r_symbol renderer, r_label renderer)]
      else if r_type renderer = Some UNIQUE_VALUE then
        map (\<lambda>uvi. (uvi_symbol uvi, uvi_label uvi)) (uniqueValueInfos renderer) @
        defaultBranch renderer
      else if r_type renderer = Some CLASS_BREAKS then
        map (\<lambda>cbi. (cbi_symbol cbi, cbi_label cbi)) (classBreakInfos renderer) @
        defaultBranch renderer
      else [])"

text \<open>The legend entry that \<open>symbolToLegend\<close> makes for one branch.\<close>

definition legendEntry :: "jsRuntime \<Rightarrow> symbol option \<times> string option \<Rightarrow> legendItem" where
  "legendEntry rt branch = fst (symbolToLegend rt (fst branch) (snd branch))"

text \<open>The blank image under a label, and the entry that stands for a failed conversion.\<close>

definition blankItem :: "string option \<Rightarrow> legendItem" where
  "blankItem label =
     \<lparr>li_label = label, li_imageData = Some emptySVG,
      li_contentType = Some ''image/svg+xml'', li_base = []\<rparr>"

definition errorItem :: legendItem where
  "errorItem = blankItem (Some ''Error!'')"

text \<open>The conversion of a symbol raises inside the \<open>try\<close> block.\<close>

definition conversionRaises :: "jsRuntime \<Rightarrow> symbol option \<Rightarrow> bool" where
  "conversionRaises rt symbol \<longleftrightarrow> snd (symbolToLegend_try rt symbol (blankItem None)) \<noteq> None"

text \<open>The key under which the enhancement stores and looks up a legend item.\<close>

definition labelKey :: "legendItem \<Rightarrow> string" where
  "labelKey legItem = strOrUndefined (li_label legItem)"

text \<open>The key under which the enhancement looks up the icon of a branch: its label.\<close>

definition branchKey :: "symbol option \<times> string option \<Rightarrow> string" where
  "branchKey branch = strOrUndefined (snd branch)"

text \<open>
  A branch has got the icon of its own legend entry: the URL attached to the branch is the
  data URL of the entry generated for it, when the conversion of its symbol does not raise,
  its label is not the key \<open>__proto__\<close>, and, if its label is \<open>Error!\<close>, none of the
  branches after it (\<open>later\<close>) fails to convert.
\<close>

definition attached ::
  "jsRuntime \<Rightarrow> symbol option \<times> string option \<Rightarrow> (symbol option \<times> string option) list \<Rightarrow>
   string jsval \<Rightarrow> bool" where
  "attached rt branch later url \<longleftrightarrow>
     (\<not> conversionRaises rt (fst branch) \<and> branchKey branch \<noteq> ''__proto__'' \<and>
      (branchKey branch = ''Error!'' \<longrightarrow> (\<forall>b\<in>set later. \<not> conversionRaises rt (fst b))) \<longrightarrow>
        url = Value (dataUrl (legendEntry rt branch)))"

section \<open>A concrete runtime and concrete inputs\<close>

text \<open>
  A runtime to evaluate the functions on concrete inputs: it prints an integer in decimal
  (another rational as numerator \<open>/\<close> denominator), parses no string as a number, and
  prints every inherited member as \<open>[object Object]\<close>. The theorems below hold for every
  runtime; this one only serves the evaluations.
\<close>

fun showNat :: "nat \<Rightarrow> string" where
  "showNat n = (if n < 10 then [char_of (48 + n)] else showNat (n div 10) @ [char_of (48 + n mod 10)])"

declare showNat.simps [simp del]

definition showInt :: "int \<Rightarrow> string" where
  "showInt i = (if i < 0 then ''-'' @ showNat (nat (- i)) else showNat (nat i))"

definition showRat :: "rat \<Rightarrow> string" where
  "showRat q = (case quotient_of q of (n, d) \<Rightarrow> if d = 1 then showInt n else showInt n @ ''/'' @ showInt d)"

definition sampleRuntime :: jsRuntime where
  "sampleRuntime =
     \<lparr>numberToString = showRat,
      stringToNumber = (\<lambda>s. JNaN),
      protoMemberToString = (\<lambda>k. ''[object Object]'')\<rparr>"

definition noAttributes :: attributes where
  "noAttributes = Map.empty"

text \<open>A renderer with every field absent, to build the others from.\<close>

definition blankRenderer :: renderer where
  "blankRenderer =
     \<lparr>r_type = None, r_symbol = None, r_label = None, r_imageUrl = Undefined,
      field1 = None, field2 = None, field3 = None, uniqueValueInfos = [],
      r_field = None, minValue = None, classBreakInfos = [],
      defaultSymbol = None, defaultLabel = None, defaultImageUrl = Undefined\<rparr>"

definition twoLevels :: "lod list" where
  "twoLevels = [\<lparr>scale = 1000\<rparr>, \<lparr>scale = 100\<rparr>]"

definition oneLevel :: "lod list" where
  "oneLevel = [\<lparr>scale = 1000\<rparr>]"

definition unknownRenderer :: renderer where
  "unknownRenderer = blankRenderer\<lparr>r_type := Some ''heatmap''\<rparr>"

definition kindRenderer :: renderer where
  "kindRenderer = blankRenderer\<lparr>r_type := Some UNIQUE_VALUE, field1 := Some ''kind''\<rparr>"

definition nullKindAttributes :: attributes where
  "nullKindAttributes = [''kind'' \<mapsto> ANull]"

definition breakEntry :: "rat \<Rightarrow> string \<Rightarrow> classBreakInfo" where
  "breakEntry ub icon =
     \<lparr>cbi_maxValue = Some ub, cbi_label = None, cbi_symbol = None, cbi_imageUrl = Value icon\<rparr>"

definition breaks102030 :: renderer where
  "breaks102030 =
     blankRenderer\<lparr>r_type := Some CLASS_BREAKS, r_field := Some ''value'', minValue := Some 0,
       classBreakInfos := [breakEntry 10 ''icon-0'', breakEntry 20 ''icon-1'', breakEntry 30 ''icon-2''],
       defaultImageUrl := Value ''icon-default''\<rparr>"

definition breaks3010 :: renderer where
  "breaks3010 =
     blankRenderer\<lparr>r_type := Some CLASS_BREAKS, r_field := Some ''value'', minValue := Some 0,
       classBreakInfos := [breakEntry 30 ''icon-0'', breakEntry 10 ''icon-1''],
       defaultImageUrl := Value ''icon-default''\<rparr>"

text \<open>A renderer whose minimum is so large that subtracting 1 from it changes nothing.\<close>

definition breaksHuge :: renderer where
  "breaksHuge =
     blankRenderer\<lparr>r_type := Some CLASS_BREAKS, r_field := Some ''value'',
       minValue := Some (- (2 ^ 53)),
       classBreakInfos := [breakEntry 0 ''icon-0''],
       defaultImageUrl := Value ''icon-default''\<rparr>"

definition valueAttributes :: "rat \<Rightarrow> attributes" where
  "valueAttributes v = [''value'' \<mapsto> ANum v]"

definition abRenderer :: renderer where
  "abRenderer =
     blankRenderer\<lparr>r_type := Some UNIQUE_VALUE, field1 := Some ''field1'', field2 := Some ''field2'',
       uniqueValueInfos :=
         [\<lparr>uvi_value = ''A, B'', uvi_label = Some ''A and B'', uvi_symbol = None,
           uvi_imageUrl = Value ''icon-AB''\<rparr>],
       defaultImageUrl := Value ''icon-default''\<rparr>"

definition attributesAB :: attributes where
  "attributesAB = [''field1'' \<mapsto> AStr ''A'', ''field2'' \<mapsto> AStr ''B'']"

definition attributesAC :: attributes where
  "attributesAC = [''field1'' \<mapsto> AStr ''A'', ''field2'' \<mapsto> AStr ''C'']"

definition textSymbol :: symbol where
  "textSymbol = Symbol (Some ''esriTS'') None None None None None None None None None"

definition lineSymbol :: symbol where
  "lineSymbol =
     Symbol (Some ''esriSLS'') (Some ''esriSLSSolid'') (Some [255, 0, 0, 255]) None None None None
       (Some 2) None None"

definition mixedRenderer :: renderer where
  "mixedRenderer =
     blankRenderer\<lparr>r_type := Some UNIQUE_VALUE, field1 := Some ''kind'',
       uniqueValueInfos :=
         [\<lparr>uvi_value = ''name'', uvi_label = Some ''Names'', uvi_symbol = Some textSymbol,
           uvi_imageUrl = Undefined\<rparr>,
          \<lparr>uvi_value = ''road'', uvi_label = Some ''Roads'', uvi_symbol = Some lineSymbol,
           uvi_imageUrl = Undefined\<rparr>]\<rparr>"

definition roadsRenderer :: renderer where
  "roadsRenderer =
     blankRenderer\<lparr>r_type := Some SIMPLE, r_symbol := Some lineSymbol, r_label := Some ''Roads''\<rparr>"

definition roadsLegend :: legendObj where
  "roadsLegend =
     \<lparr>layers = [\<lparr>layerId = 0,
                  legend = [\<lparr>li_label = Some ''Roads'', li_imageData = Some ''<svg/>'',
                             li_contentType = Some ''image/svg+xml'', li_base = []\<rparr>]\<rparr>]\<rparr>"

definition namesRenderer :: renderer where
  "namesRenderer =
     blankRenderer\<lparr>r_type := Some SIMPLE, r_symbol := Some textSymbol, r_label := Some ''Names''\<rparr>"

definition placesRenderer :: renderer where
  "placesRenderer =
     blankRenderer\<lparr>r_type := Some UNIQUE_VALUE, field1 := Some ''kind'',
       uniqueValueInfos :=
         [\<lparr>uvi_value = ''name'', uvi_label = Some ''Names'', uvi_symbol = Some textSymbol,
           uvi_imageUrl = Undefined\<rparr>,
          \<lparr>uvi_value = ''road'', uvi_label = Some ''Roads'', uvi_symbol = Some lineSymbol,
           uvi_imageUrl = Undefined\<rparr>,
          \<lparr>uvi_value = ''place'', uvi_label = Some ''Places'', uvi_symbol = Some textSymbol,
           uvi_imageUrl = Undefined\<rparr>]\<rparr>"

definition pictureSymbol :: symbol where
  "pictureSymbol =
     Symbol (Some ''esriPMS'') None None None None None None None (Some ''iVBORw0KGgo='')
       (Some ''image/png'')"

definition errorLabelRenderer :: renderer where
  "errorLabelRenderer =
     blankRenderer\<lparr>r_type := Some UNIQUE_VALUE, field1 := Some ''kind'',
       uniqueValueInfos :=
         [\<lparr>uvi_value = ''error'', uvi_label = Some ''Error!'', uvi_symbol = Some pictureSymbol,
           uvi_imageUrl = Undefined\<rparr>,
          \<lparr>uvi_value = ''name'', uvi_label = Some ''Names'', uvi_symbol = Some textSymbol,
           uvi_imageUrl = Undefined\<rparr>]\<rparr>"

section \<open>The scale-level resolver\<close>

text \<open>
  On a list of two levels the first probe is index 1. When the scale of that last level is
  at least the limit, \<open>lowLod\<close> becomes 1 while \<open>highLod\<close> is 1 already, the exit test
  \<open>highLod === lowLod + 1\<close> fails, and the next iteration starts from the same variables.
\<close>

lemma getZoomLevel_loop_stuck:
  assumes le: "sl \<le> scale b"
  shows "getZoomLevel_loop [a, b] sl 1 1 1 = None"
proof (rule ccontr)
  assume "getZoomLevel_loop [a, b] sl 1 1 1 \<noteq> None"
  then obtain y where y: "getZoomLevel_loop [a, b] sl 1 1 1 = Some y" by auto
  have "(lods, s, c, l, h) \<noteq> ([a, b], sl, 1, 1, 1)"
    if run: "getZoomLevel_loop lods s c l h = Some y" for lods s c l h y
  proof (rule getZoomLevel_loop.raw_induct
      [where P = "\<lambda>lods s c l h y. (lods, s, c, l, h) \<noteq> ([a, b], sl, 1, 1, 1)", OF _ run])
    fix f lods s c l h and y :: "exn + int"
    assume IH: "\<And>lods s c l h y. f lods s c l h = Some y \<Longrightarrow>
          (lods, s, c, l, h) \<noteq> ([a, b], sl, 1, 1, 1)"
      and step: "(case nthOpt lods c of
          None \<Rightarrow> Some (Inl TypeError)
        | Some x \<Rightarrow>
            (let lowLod' = (if scale x \<ge> s then c else l);
                 highLod' = (if scale x \<ge> s then h else c);
                 currentLod' = (highLod' + lowLod') div 2
             in if highLod' = lowLod' + 1 then Some (Inr currentLod')
                else f lods s currentLod' lowLod' highLod')) = Some y"
    show "(lods, s, c, l, h) \<noteq> ([a, b], sl, 1, 1, 1)"
    proof
      assume "(lods, s, c, l, h) = ([a, b], sl, 1, 1, 1)"
      with step le have "f [a, b] sl 1 1 1 = Some y"
        by (simp add: nthOpt_def)
      from IH[OF this] show False by simp
    qed
  qed
  from this[OF y] show False by simp
qed

lemma getZoomLevel_two:
  "getZoomLevel [a, b] maxScale =
     (if maxScale = 0 then Some (Inr 1)
      else if maxScale \<le> scale b then None
      else Some (Inr 0))"
proof (cases "maxScale = 0")
  case True
  then show ?thesis by (simp add: getZoomLevel_def)
next
  case nz: False
  show ?thesis
  proof (cases "maxScale \<le> scale b")
    case True
    have "getZoomLevel_loop [a, b] maxScale 1 0 1 = getZoomLevel_loop [a, b] maxScale 1 1 1"
      using True by (subst getZoomLevel_loop.simps) (simp add: nthOpt_def)
    with nz True show ?thesis
      by (simp add: getZoomLevel_def getZoomLevel_loop_stuck)
  next
    case False
    have "getZoomLevel_loop [a, b] maxScale 1 0 1 = Some (Inr 0)"
      using False by (subst getZoomLevel_loop.simps) (simp add: nthOpt_def)
    with nz False show ?thesis
      by (simp add: getZoomLevel_def)
  qed
qed

lemma getZoomLevel_two_levels_500: "getZoomLevel twoLevels 500 = Some (Inr 0)"
  by (simp add: twoLevels_def getZoomLevel_two)

lemma getZoomLevel_no_limit: "getZoomLevel lods 0 = Some (Inr (int (length lods) - 1))"
  by (simp add: getZoomLevel_def)

text \<open>
  C6. On the two levels with scales 1000 and 100, the limit 500 gives index 0 and the limit
  0 gives the last index (\<open>getZoomLevel_two_levels_500\<close>, \<open>getZoomLevel_no_limit\<close>).
  But the loop does not end on every two-element list: with the limit 50, which the scale
  of the last level reaches, \<open>getZoomLevel\<close> never returns.
\<close>

theorem getZoomLevel_two_levels_diverges: "getZoomLevel twoLevels 50 = None"
proof -
  have start: "getZoomLevel twoLevels 50 = getZoomLevel_loop twoLevels 50 1 0 1"
    by (simp add: getZoomLevel_def twoLevels_def)
  have probe: "getZoomLevel_loop twoLevels 50 1 0 1 = getZoomLevel_loop twoLevels 50 1 1 1"
    by (subst getZoomLevel_loop.simps) (simp add: twoLevels_def nthOpt_def)
  have stuck: "getZoomLevel_loop twoLevels 50 1 1 1 = None"
    unfolding twoLevels_def by (rule getZoomLevel_loop_stuck) simp
  show ?thesis
    by (simp only: start probe stuck)
qed

text \<open>While the three variables are inside the array, the loop does not raise.\<close>

lemma getZoomLevel_loop_no_throw:
  assumes run: "getZoomLevel_loop lods sl c l h = Some y"
  shows "inRange lods c \<and> inRange lods l \<and> inRange lods h \<longrightarrow> (\<exists>i. y = Inr i)"
proof (rule getZoomLevel_loop.raw_induct
      [where P = "\<lambda>lods sl c l h y.
         inRange lods c \<and> inRange lods l \<and> inRange lods h \<longrightarrow> (\<exists>i. y = Inr i)", OF _ run])
  fix f lods sl c l h and y :: "exn + int"
  assume IH: "\<And>lods sl c l h y. f lods sl c l h = Some y \<Longrightarrow>
        inRange lods c \<and> inRange lods l \<and> inRange lods h \<longrightarrow> (\<exists>i. y = Inr i)"
    and step: "(case nthOpt lods c of
        None \<Rightarrow> Some (Inl TypeError)
      | Some x \<Rightarrow>
          (let lowLod' = (if scale x \<ge> sl then c else l);
               highLod' = (if scale x \<ge> sl then h else c);
               currentLod' = (highLod' + lowLod') div 2
           in if highLod' = lowLod' + 1 then Some (Inr currentLod')
              else f lods sl currentLod' lowLod' highLod')) = Some y"
  show "inRange lods c \<and> inRange lods l \<and> inRange lods h \<longrightarrow> (\<exists>i. y = Inr i)"
  proof
    assume rng: "inRange lods c \<and> inRange lods l \<and> inRange lods h"
    then obtain x where x: "nthOpt lods c = Some x"
      by (auto simp: nthOpt_def inRange_def)
    show "\<exists>i. y = Inr i"
    proof (cases "sl \<le> scale x")
      case True
      show ?thesis
      proof (cases "h = c + 1")
        case True
        with step x \<open>sl \<le> scale x\<close> show ?thesis by (auto simp: Let_def)
      next
        case False
        with step x True have "f lods sl ((h + c) div 2) c h = Some y"
          by (simp add: Let_def)
        moreover from rng have "inRange lods ((h + c) div 2)"
          by (auto simp: inRange_def)
        ultimately show ?thesis using IH rng by blast
      qed
    next
      case False
      show ?thesis
      proof (cases "c = l + 1")
        case True
        with step x False show ?thesis by (auto simp: Let_def)
      next
        case far: False
        with step x False have "f lods sl ((c + l) div 2) l c = Some y"
          by (simp add: Let_def)
        moreover from rng have "inRange lods ((c + l) div 2)"
          by (auto simp: inRange_def)
        ultimately show ?thesis using IH rng by blast
      qed
    qed
  qed
qed

text \<open>
  C10. \<open>getZoomLevel\<close> raises (reading \<open>.scale\<close> of an element outside the array) exactly
  when the list has fewer than two levels and the limit is not 0: with one level the first
  probe is index \<open>ceil(1/2) = 1\<close>. With at least two levels, or with the limit 0, the
  raising branch is not reached.
\<close>

theorem getZoomLevel_throws_iff:
  "(\<exists>e. getZoomLevel lods maxScale = Some (Inl e)) \<longleftrightarrow> (length lods < 2 \<and> maxScale \<noteq> 0)"
proof
  assume "\<exists>e. getZoomLevel lods maxScale = Some (Inl e)"
  then obtain e where e: "getZoomLevel lods maxScale = Some (Inl e)" by blast
  then have nz: "maxScale \<noteq> 0"
    by (auto simp: getZoomLevel_def split: if_splits)
  have "length lods < 2"
  proof (rule ccontr)
    assume "\<not> length lods < 2"
    then have len: "2 \<le> length lods" by simp
    from e nz have "getZoomLevel_loop lods maxScale ((int (length lods) + 1) div 2) 0
        (int (length lods) - 1) = Some (Inl e)"
      by (simp add: getZoomLevel_def)
    moreover from len have "inRange lods ((int (length lods) + 1) div 2)"
      "inRange lods 0" "inRange lods (int (length lods) - 1)"
      by (auto simp: inRange_def)
    ultimately show False using getZoomLevel_loop_no_throw by blast
  qed
  with nz show "length lods < 2 \<and> maxScale \<noteq> 0" by simp
next
  assume a: "length lods < 2 \<and> maxScale \<noteq> 0"
  then have "nthOpt lods ((int (length lods) + 1) div 2) = None"
    by (cases lods) (auto simp: nthOpt_def)
  with a show "\<exists>e. getZoomLevel lods maxScale = Some (Inl e)"
    unfolding getZoomLevel_def by (subst getZoomLevel_loop.simps) simp
qed

theorem getZoomLevel_throws_iff_witness:
  "getZoomLevel oneLevel 500 = Some (Inl TypeError) \<and>
   (\<forall>e. getZoomLevel oneLevel 0 \<noteq> Some (Inl e)) \<and>
   (\<forall>e. getZoomLevel twoLevels 500 \<noteq> Some (Inl e))"
proof -
  have "\<exists>e. getZoomLevel oneLevel 500 = Some (Inl e)"
    using getZoomLevel_throws_iff [of oneLevel 500] by (simp add: oneLevel_def)
  moreover have "getZoomLevel_loop oneLevel 500 1 0 0 = Some (Inl TypeError)"
    by (subst getZoomLevel_loop.simps) (simp add: oneLevel_def nthOpt_def)
  ultimately have "getZoomLevel oneLevel 500 = Some (Inl TypeError)"
    by (simp add: getZoomLevel_def oneLevel_def)
  moreover have "\<forall>e. getZoomLevel oneLevel 0 \<noteq> Some (Inl e)"
    using getZoomLevel_throws_iff [of oneLevel 0] by simp
  moreover have "\<forall>e. getZoomLevel twoLevels 500 \<noteq> Some (Inl e)"
    using getZoomLevel_throws_iff [of twoLevels 500] by (simp add: twoLevels_def)
  ultimately show ?thesis by blast
qed

section \<open>The renderer classifier\<close>

lemma keyToString_TypeError:
  "v \<in> {Undefined, Value ANull} \<Longrightarrow> keyToString rt v = Inl TypeError"
  by (auto simp: keyToString_def)

lemma type_names_distinct:
  "SIMPLE \<noteq> UNIQUE_VALUE" "SIMPLE \<noteq> CLASS_BREAKS" "UNIQUE_VALUE \<noteq> CLASS_BREAKS"
  "UNIQUE_VALUE \<noteq> SIMPLE" "CLASS_BREAKS \<noteq> SIMPLE" "CLASS_BREAKS \<noteq> UNIQUE_VALUE"
  by (simp_all add: SIMPLE_def UNIQUE_VALUE_def CLASS_BREAKS_def)

text \<open>A renderer of an unknown type logs a warning and gives the empty result.\<close>

lemma searchRenderer_unknown_type:
  "r_type renderer \<notin> {Some SIMPLE, Some UNIQUE_VALUE, Some CLASS_BREAKS} \<Longrightarrow>
   searchRenderer rt attributes renderer =
     Inr (\<lparr>ri_imageUrl = Value [], ri_symbol = EmptyObject\<rparr>,
          [ConsoleWarn (''Unknown renderer type encountered - '' @
                        strOrUndefined (r_type renderer))])"
  by (simp add: searchRenderer_def)

text \<open>
  On a unique-value renderer the value of \<open>field1\<close> is converted by a call of its
  \<open>toString\<close> method, which raises when the attribute is missing or null; the values of
  \<open>field2\<close> and \<open>field3\<close> are converted by concatenation, which does not raise.
\<close>

lemma searchRenderer_TypeError:
  "keyMissing attributes renderer \<Longrightarrow> searchRenderer rt attributes renderer = Inl TypeError"
  using keyToString_TypeError[of "getProperty attributes (strOrUndefined (field1 renderer))" rt]
  by (simp add: keyMissing_def searchRenderer_def type_names_distinct)

text \<open>
  C1. The classifier is to return on every input. It does not: with a unique-value
  renderer keyed on \<open>kind\<close>, a feature that has no attribute \<open>kind\<close>, or has it null,
  makes \<open>searchRenderer\<close> raise a \<open>TypeError\<close>, and \<open>getGraphicIcon\<close> and
  \<open>getGraphicSymbol\<close> with it, where a key without a matching entry is to give the
  default icon and symbol.
\<close>

theorem searchRenderer_missing_key_raises:
  "searchRenderer sampleRuntime noAttributes kindRenderer = Inl TypeError \<and>
   searchRenderer sampleRuntime nullKindAttributes kindRenderer = Inl TypeError \<and>
   getGraphicIcon sampleRuntime noAttributes kindRenderer = Inl TypeError \<and>
   getGraphicSymbol sampleRuntime noAttributes kindRenderer = Inl TypeError"
proof -
  have missing: "keyMissing noAttributes kindRenderer"
    by (simp add: keyMissing_def kindRenderer_def blankRenderer_def noAttributes_def
        getProperty_def strOrUndefined_def objectPrototypeKeys_def)
  have null: "keyMissing nullKindAttributes kindRenderer"
    by (simp add: keyMissing_def kindRenderer_def blankRenderer_def nullKindAttributes_def
        getProperty_def strOrUndefined_def)
  have a: "searchRenderer sampleRuntime noAttributes kindRenderer = Inl TypeError"
    using missing by (rule searchRenderer_TypeError)
  have b: "searchRenderer sampleRuntime nullKindAttributes kindRenderer = Inl TypeError"
    using null by (rule searchRenderer_TypeError)
  from a have c: "getGraphicIcon sampleRuntime noAttributes kindRenderer = Inl TypeError"
    by (simp add: getGraphicIcon_def)
  from a have d: "getGraphicSymbol sampleRuntime noAttributes kindRenderer = Inl TypeError"
    by (simp add: getGraphicSymbol_def)
  from a b c d show ?thesis by (intro conjI)
qed

section \<open>Rounding to a double\<close>





text \<open>The small integers the module computes with are doubles.\<close>

lemma roundDouble_small:
  "roundDouble (- 1) = - 1" "roundDouble 2 = 2" "roundDouble 14 = 14" "roundDouble 30 = 30"
  by code_simp+



section \<open>Marker sizes\<close>







section \<open>Class breaks\<close>

lemma searchRenderer_classBreaks:
  assumes "r_type renderer = Some CLASS_BREAKS"
    and "attributes (strOrUndefined (r_field renderer)) = Some (ANum v)"
    and "minValue renderer = Some lo"
  shows "searchRenderer rt attributes renderer =
     Inr (if v < lo then defaultInfo renderer
          else (case findBreak (JNum v) renderer of
                  None \<Rightarrow> defaultInfo renderer | Some cbi \<Rightarrow> breakInfo cbi), [])"
  using assms
  by (simp add: searchRenderer_def type_names_distinct getProperty_def attrToNumber_def
      ofOpt_def js_lt_def defaultInfo_def breakInfo_def Let_def split: option.splits)

lemma lowerBounds_nth:
  "i < length ubs \<Longrightarrow> lowerBounds lo ubs ! i = (roundDouble (lo - 1) # ubs) ! i"
  by (cases i) (simp_all add: lowerBounds_def nth_butlast)

lemma minSplits_nth:
  assumes "minValue renderer = Some lo"
    and "map cbi_maxValue (classBreakInfos renderer) = map Some ubs"
    and "i < length ubs"
  shows "minSplits renderer ! i = JNum (lowerBounds lo ubs ! i)"
proof -
  have "map (\<lambda>cbi. ofOpt (cbi_maxValue cbi)) (classBreakInfos renderer) =
        map ofOpt (map cbi_maxValue (classBreakInfos renderer))"
    by simp
  then have "map (\<lambda>cbi. ofOpt (cbi_maxValue cbi)) (classBreakInfos renderer) = map ofOpt (map Some ubs)"
    using assms(2) by simp
  then have "minSplits renderer = map JNum (roundDouble (lo - 1) # ubs)"
    using assms(1) by (simp add: minSplits_def ofOpt_def js_sub_def lift2_def comp_def)
  with assms(3) show ?thesis by (simp add: lowerBounds_nth del: list.map)
qed

lemma find_None_nth: "List.find Q xs = None \<longleftrightarrow> (\<forall>i<length xs. \<not> Q (xs ! i))"
  unfolding find_None_iff by (metis in_set_conv_nth)

lemma findBreak_spec:
  assumes lo: "minValue renderer = Some lo"
    and ubs: "map cbi_maxValue (classBreakInfos renderer) = map Some ubs"
  shows "(findBreak (JNum v) renderer = None \<longleftrightarrow> (\<forall>i<length ubs. \<not> inBreak lo ubs v i)) \<and>
         (\<forall>i<length ubs. inBreak lo ubs v i \<and> (\<forall>j<i. \<not> inBreak lo ubs v j) \<longrightarrow>
            findBreak (JNum v) renderer = Some (classBreakInfos renderer ! i))"
proof -
  let ?infos = "classBreakInfos renderer"
  let ?P = "\<lambda>(index, cbi). js_gt (JNum v) (minSplits renderer ! index) \<and>
                           js_le (JNum v) (ofOpt (cbi_maxValue cbi))"
  let ?zs = "zip [0..<length ?infos] ?infos"
  from ubs have len: "length ?infos = length ubs"
    by (metis length_map)
  have mx: "cbi_maxValue (?infos ! i) = Some (ubs ! i)" if "i < length ubs" for i
    using that ubs len by (metis nth_map)
  have P: "?P (?zs ! i) \<longleftrightarrow> inBreak lo ubs v i" if "i < length ubs" for i
    using that len mx[OF that] minSplits_nth[OF lo ubs that]
    by (simp add: inBreak_def js_gt_def js_lt_def js_le_def ofOpt_def)
  have zlen: "length ?zs = length ubs" using len by simp
  have none: "findBreak (JNum v) renderer = None \<longleftrightarrow> (\<forall>i<length ubs. \<not> inBreak lo ubs v i)"
  proof -
    have "findBreak (JNum v) renderer = None \<longleftrightarrow> (\<forall>i<length ?zs. \<not> ?P (?zs ! i))"
      unfolding findBreak_def map_option_is_None by (rule find_None_nth)
    also have "\<dots> \<longleftrightarrow> (\<forall>i<length ubs. \<not> inBreak lo ubs v i)"
      using P zlen by simp
    finally show ?thesis .
  qed
  have some: "findBreak (JNum v) renderer = Some (?infos ! i)"
    if i: "i < length ubs" and hit: "inBreak lo ubs v i" and first: "\<forall>j<i. \<not> inBreak lo ubs v j" for i
  proof -
    have "List.find ?P ?zs = Some (?zs ! i)"
      unfolding find_Some_iff
    proof (intro exI[of _ i] conjI allI impI)
      show "i < length ?zs" using i zlen by simp
      show "?P (?zs ! i)" using P[OF i] hit by simp
      show "?zs ! i = ?zs ! i" by simp
      fix j assume "j < i"
      then show "\<not> ?P (?zs ! j)" using P[of j] first i by simp
    qed
    moreover have "snd (?zs ! i) = ?infos ! i" using i len by simp
    ultimately show ?thesis by (simp add: findBreak_def)
  qed
  from none some show ?thesis by blast
qed

lemma sorted_above_last:
  assumes "sorted ubs" "ubs \<noteq> []" "last ubs < (v::rat)" "i < length ubs"
  shows "ubs ! i < v"
proof -
  have "ubs ! i \<le> ubs ! (length ubs - 1)"
    using assms(1,4) by (intro sorted_nth_mono) auto
  with assms(2,3) show ?thesis by (simp add: last_conv_nth)
qed

lemmas breaks_example_defs = breaks102030_def breaks3010_def blankRenderer_def breakEntry_def
  valueAttributes_def strOrUndefined_def

text \<open>
  C2 (amended). On a class-breaks renderer with a numeric minimum and numeric upper bounds,
  for a numeric value \<open>v\<close> of the field: \<open>v\<close> below the minimum gives the default;
  otherwise the result is the first entry \<open>i\<close> with
  \<open>lowerBound[i] < v \<le> upperBound[i]\<close>, the lower bounds being \<open>minimum - 1\<close> (as the
  doubles subtract) followed by every upper bound but the last; when no entry matches, the
  result is the default, which is the case for \<open>v\<close> above the last upper bound when the
  upper bounds ascend. With the upper bounds 10, 20, 30 and the minimum 0: 5 and 10 give
  entry 0, 10.01 gives entry 1, 31 and -1 give the default.
\<close>

theorem classBreaks_first_matching_range:
  "(r_type renderer = Some CLASS_BREAKS \<and>
    attributes (strOrUndefined (r_field renderer)) = Some (ANum v) \<and>
    minValue renderer = Some lo \<and>
    map cbi_maxValue (classBreakInfos renderer) = map Some ubs \<longrightarrow>
      (\<exists>info. searchRenderer rt attributes renderer = Inr (info, []) \<and>
         (v < lo \<longrightarrow> info = defaultInfo renderer) \<and>
         (\<forall>i<length ubs. lo \<le> v \<and> inBreak lo ubs v i \<and> (\<forall>j<i. \<not> inBreak lo ubs v j) \<longrightarrow>
            info = breakInfo (classBreakInfos renderer ! i)) \<and>
         ((\<forall>i<length ubs. \<not> inBreak lo ubs v i) \<longrightarrow> info = defaultInfo renderer) \<and>
         (sorted ubs \<and> ubs \<noteq> [] \<and> last ubs < v \<longrightarrow> info = defaultInfo renderer))) \<and>
   searchRenderer rt (valueAttributes 5) breaks102030 =
     Inr (breakInfo (classBreakInfos breaks102030 ! 0), []) \<and>
   searchRenderer rt (valueAttributes 10) breaks102030 =
     Inr (breakInfo (classBreakInfos breaks102030 ! 0), []) \<and>
   searchRenderer rt (valueAttributes (1001 / 100)) breaks102030 =
     Inr (breakInfo (classBreakInfos breaks102030 ! 1), []) \<and>
   searchRenderer rt (valueAttributes 31) breaks102030 = Inr (defaultInfo breaks102030, []) \<and>
   searchRenderer rt (valueAttributes (- 1)) breaks102030 = Inr (defaultInfo breaks102030, [])"
proof -
  have general: "\<exists>info. searchRenderer rt attributes renderer = Inr (info, []) \<and>
         (v < lo \<longrightarrow> info = defaultInfo renderer) \<and>
         (\<forall>i<length ubs. lo \<le> v \<and> inBreak lo ubs v i \<and> (\<forall>j<i. \<not> inBreak lo ubs v j) \<longrightarrow>
            info = breakInfo (classBreakInfos renderer ! i)) \<and>
         ((\<forall>i<length ubs. \<not> inBreak lo ubs v i) \<longrightarrow> info = defaultInfo renderer) \<and>
         (sorted ubs \<and> ubs \<noteq> [] \<and> last ubs < v \<longrightarrow> info = defaultInfo renderer)"
    if ty: "r_type renderer = Some CLASS_BREAKS"
      and at: "attributes (strOrUndefined (r_field renderer)) = Some (ANum v)"
      and lo: "minValue renderer = Some lo"
      and ubs: "map cbi_maxValue (classBreakInfos renderer) = map Some ubs"
    for renderer attributes v lo ubs
  proof -
    let ?info = "if v < lo then defaultInfo renderer
          else (case findBreak (JNum v) renderer of
                  None \<Rightarrow> defaultInfo renderer | Some cbi \<Rightarrow> breakInfo cbi)"
    note fb = findBreak_spec[OF lo ubs, of v]
    have run: "searchRenderer rt attributes renderer = Inr (?info, [])"
      using searchRenderer_classBreaks[where renderer = renderer and attributes = attributes
          and v = v and lo = lo and rt = rt] ty at lo by simp
    have low: "v < lo \<longrightarrow> ?info = defaultInfo renderer" by simp
    have hit: "\<forall>i<length ubs. lo \<le> v \<and> inBreak lo ubs v i \<and> (\<forall>j<i. \<not> inBreak lo ubs v j) \<longrightarrow>
            ?info = breakInfo (classBreakInfos renderer ! i)"
      using fb by auto
    have miss: "(\<forall>i<length ubs. \<not> inBreak lo ubs v i) \<longrightarrow> ?info = defaultInfo renderer"
      using fb by auto
    have above: "sorted ubs \<and> ubs \<noteq> [] \<and> last ubs < v \<longrightarrow> ?info = defaultInfo renderer"
    proof
      assume a: "sorted ubs \<and> ubs \<noteq> [] \<and> last ubs < v"
      have "\<forall>i<length ubs. \<not> inBreak lo ubs v i"
        using sorted_above_last[of ubs v] a by (fastforce simp: inBreak_def)
      with miss show "?info = defaultInfo renderer" by blast
    qed
    from run low hit miss above show ?thesis by blast
  qed
  have fb: "findBreak (JNum v) breaks102030 =
      (if - 1 < v \<and> v \<le> 10 then Some (breakEntry 10 ''icon-0'')
       else if 10 < v \<and> v \<le> 20 then Some (breakEntry 20 ''icon-1'')
       else if 20 < v \<and> v \<le> 30 then Some (breakEntry 30 ''icon-2'')
       else None)" for v
    by (simp add: findBreak_def minSplits_def breaks102030_def blankRenderer_def breakEntry_def
        upt_rec[of 0] upt_rec[of 1] upt_rec[of 2] upt_rec[of 3]
        js_gt_def js_lt_def js_le_def js_sub_def lift2_def ofOpt_def roundDouble_small)
  have ex: "searchRenderer rt (valueAttributes v) breaks102030 =
     Inr (if v < 0 then defaultInfo breaks102030
          else (case findBreak (JNum v) breaks102030 of
                  None \<Rightarrow> defaultInfo breaks102030 | Some cbi \<Rightarrow> breakInfo cbi), [])" for v
    using searchRenderer_classBreaks[where renderer = breaks102030
        and attributes = "valueAttributes v" and v = v and lo = 0 and rt = rt]
    by (simp add: breaks_example_defs)
  have infos: "classBreakInfos breaks102030 ! 0 = breakEntry 10 ''icon-0''"
    "classBreakInfos breaks102030 ! 1 = breakEntry 20 ''icon-1''"
    by (simp_all add: breaks102030_def blankRenderer_def)
  have c5: "searchRenderer rt (valueAttributes 5) breaks102030 =
     Inr (breakInfo (classBreakInfos breaks102030 ! 0), [])"
    unfolding ex fb infos by simp
  have c10: "searchRenderer rt (valueAttributes 10) breaks102030 =
     Inr (breakInfo (classBreakInfos breaks102030 ! 0), [])"
    unfolding ex fb infos by simp
  have c1001: "searchRenderer rt (valueAttributes (1001 / 100)) breaks102030 =
     Inr (breakInfo (classBreakInfos breaks102030 ! 1), [])"
    unfolding ex fb infos by simp
  have c31: "searchRenderer rt (valueAttributes 31) breaks102030 = Inr (defaultInfo breaks102030, [])"
    unfolding ex fb infos by simp
  have cm1: "searchRenderer rt (valueAttributes (- 1)) breaks102030 = Inr (defaultInfo breaks102030, [])"
    unfolding ex fb infos by simp
  from general c5 c10 c1001 c31 cm1 show ?thesis by blast
qed

theorem classBreaks_first_matching_range_witness:
  "searchRenderer sampleRuntime (valueAttributes 15) breaks102030 =
     Inr (breakInfo (breakEntry 20 ''icon-1''), []) \<and>
   searchRenderer sampleRuntime (valueAttributes 31) breaks102030 =
     Inr (defaultInfo breaks102030, [])"
proof -
  have h: "r_type breaks102030 = Some CLASS_BREAKS"
    "minValue breaks102030 = Some 0"
    "map cbi_maxValue (classBreakInfos breaks102030) = map Some [10, 20, 30]"
    "classBreakInfos breaks102030 ! 1 = breakEntry 20 ''icon-1''"
    by (simp_all add: breaks_example_defs)
  have a15: "valueAttributes 15 (strOrUndefined (r_field breaks102030)) = Some (ANum 15)"
    and a31: "valueAttributes 31 (strOrUndefined (r_field breaks102030)) = Some (ANum 31)"
    by (simp_all add: breaks_example_defs)
  have in15: "inBreak 0 [10, 20, 30] 15 1" "\<forall>j<1. \<not> inBreak 0 [10, 20, 30] 15 j"
    by (simp_all add: inBreak_def lowerBounds_def roundDouble_small)
  have "searchRenderer sampleRuntime (valueAttributes 15) breaks102030 =
     Inr (breakInfo (breakEntry 20 ''icon-1''), [])"
    using classBreaks_first_matching_range
      [of breaks102030 "valueAttributes 15" 15 0 "[10, 20, 30]" sampleRuntime] h a15 in15
    by auto
  moreover have "searchRenderer sampleRuntime (valueAttributes 31) breaks102030 =
     Inr (defaultInfo breaks102030, [])"
    using classBreaks_first_matching_range
      [of breaks102030 "valueAttributes 31" 31 0 "[10, 20, 30]" sampleRuntime] h a31
    by auto
  ultimately show ?thesis by blast
qed

text \<open>
  C2 as stated (every \<open>v\<close> above the last upper bound gives the default) fails when the
  entries do not ascend: with the upper bounds 30, 10 and the minimum 0, the value 20 is
  above the last upper bound and is classified into entry 0.
\<close>

theorem classBreaks_above_last_counterexample:
  "cbi_maxValue (last (classBreakInfos breaks3010)) = Some 10 \<and>
   searchRenderer sampleRuntime (valueAttributes 20) breaks3010 =
     Inr (breakInfo (breakEntry 30 ''icon-0''), []) \<and>
   breakInfo (breakEntry 30 ''icon-0'') \<noteq> defaultInfo breaks3010"
proof -
  have "findBreak (JNum 20) breaks3010 = Some (breakEntry 30 ''icon-0'')"
    by (simp add: findBreak_def minSplits_def breaks3010_def blankRenderer_def breakEntry_def
        upt_rec[of 0] upt_rec[of 1] upt_rec[of 2]
        js_gt_def js_lt_def js_le_def js_sub_def lift2_def ofOpt_def roundDouble_small)
  moreover have "searchRenderer sampleRuntime (valueAttributes 20) breaks3010 =
     Inr (if (20::rat) < 0 then defaultInfo breaks3010
          else (case findBreak (JNum 20) breaks3010 of
                  None \<Rightarrow> defaultInfo breaks3010 | Some cbi \<Rightarrow> breakInfo cbi), [])"
    using searchRenderer_classBreaks[where renderer = breaks3010
        and attributes = "valueAttributes 20" and v = 20 and lo = 0 and rt = sampleRuntime]
    by (simp add: breaks_example_defs)
  ultimately show ?thesis
    by (simp add: breaks3010_def blankRenderer_def breakEntry_def breakInfo_def defaultInfo_def)
qed

text \<open>
  Where the doubles are two apart, \<open>minimum - 1\<close> is the minimum itself, and a value equal
  to the minimum is in no range: with the minimum \<open>-2^53\<close> and one entry up to 0, the value
  \<open>-2^53\<close> gives the default.
\<close>

lemma classBreaks_minimum_rounds:
  "searchRenderer rt (valueAttributes (- (2 ^ 53))) breaksHuge = Inr (defaultInfo breaksHuge, [])"
proof -
  have r: "roundDouble (- 9007199254740993) = - 9007199254740992" by code_simp
  have "findBreak (JNum (- (2 ^ 53))) breaksHuge = None"
    unfolding findBreak_def minSplits_def breaksHuge_def blankRenderer_def breakEntry_def
    by (simp add: upt_rec[of 0] upt_rec[of 1] js_gt_def js_lt_def js_le_def js_sub_def lift2_def
        ofOpt_def r)
  moreover have "searchRenderer rt (valueAttributes (- (2 ^ 53))) breaksHuge =
     Inr (if (- (2 ^ 53) :: rat) < - (2 ^ 53) then defaultInfo breaksHuge
          else (case findBreak (JNum (- (2 ^ 53))) breaksHuge of
                  None \<Rightarrow> defaultInfo breaksHuge | Some cbi \<Rightarrow> breakInfo cbi), [])"
    using searchRenderer_classBreaks[where renderer = breaksHuge
        and attributes = "valueAttributes (- (2 ^ 53))" and v = "- (2 ^ 53)"
        and lo = "- (2 ^ 53)" and rt = rt]
    by (simp add: breaksHuge_def blankRenderer_def valueAttributes_def strOrUndefined_def)
  ultimately show ?thesis by simp
qed

section \<open>Unique values\<close>

lemma keyToString_present:
  "v1 \<noteq> ANull \<Longrightarrow> keyToString rt (Value v1) = Inr (attrToString rt (Value v1))"
  by (cases v1) (simp_all add: keyToString_def attrToString_def)

lemma searchRenderer_uniqueValue:
  assumes ty: "r_type renderer = Some UNIQUE_VALUE"
    and at: "attributes (strOrUndefined (field1 renderer)) = Some v1"
    and nn: "v1 \<noteq> ANull"
  shows "searchRenderer rt attributes renderer =
     Inr (case List.find (\<lambda>uvi. uvi_value uvi = compositeKey rt attributes renderer v1)
                 (uniqueValueInfos renderer) of
            Some uvi \<Rightarrow> valueInfo uvi
          | None \<Rightarrow> defaultInfo renderer, [])"
proof -
  have gp: "getProperty attributes (strOrUndefined (field1 renderer)) = Value v1"
    using at by (simp add: getProperty_def)
  have k: "keyToString rt (getProperty attributes (strOrUndefined (field1 renderer))) =
      Inr (attrToString rt (Value v1))"
    unfolding gp by (rule keyToString_present[OF nn])
  have "searchRenderer rt attributes renderer =
      (case List.find (\<lambda>uvi. uvi_value uvi = compositeKey rt attributes renderer v1)
                 (uniqueValueInfos renderer) of
                   Some uvi \<Rightarrow>
                     Inr (\<lparr>ri_imageUrl = uvi_imageUrl uvi,
                           ri_symbol = SymbolVal (uvi_symbol uvi)\<rparr>, [])
                 | None \<Rightarrow>
                     Inr (\<lparr>ri_imageUrl = defaultImageUrl renderer,
                           ri_symbol = SymbolVal (defaultSymbol renderer)\<rparr>, []))"
    unfolding searchRenderer_def k
    by (simp add: ty type_names_distinct Let_def compositeKey_def)
  then show ?thesis
    by (simp add: valueInfo_def defaultInfo_def split: option.splits)
qed

lemma find_first_nth:
  assumes "i < length xs" "Q (xs ! i)" "\<forall>j<i. \<not> Q (xs ! j)"
  shows "List.find Q xs = Some (xs ! i)"
  unfolding find_Some_iff using assms by blast

text \<open>
  C3. On a unique-value renderer, when the attribute named by \<open>field1\<close> is present (an own
  property that is not null), \<open>searchRenderer\<close> returns, and its result is taken from the
  first entry of \<open>uniqueValueInfos\<close> whose value equals the composite key, or from the
  renderer's default when no entry has that value. With one entry \<open>A, B\<close> on two fields,
  the attributes \<open>A\<close>, \<open>B\<close> select that entry and the attributes \<open>A\<close>, \<open>C\<close> the
  default.
\<close>

theorem uniqueValue_composite_key:
  "(r_type renderer = Some UNIQUE_VALUE \<and>
    attributes (strOrUndefined (field1 renderer)) = Some v1 \<and> v1 \<noteq> ANull \<longrightarrow>
      (\<exists>info. searchRenderer rt attributes renderer = Inr (info, []) \<and>
         (\<forall>i<length (uniqueValueInfos renderer).
            uvi_value (uniqueValueInfos renderer ! i) = compositeKey rt attributes renderer v1 \<and>
            (\<forall>j<i. uvi_value (uniqueValueInfos renderer ! j) \<noteq>
                     compositeKey rt attributes renderer v1) \<longrightarrow>
            info = valueInfo (uniqueValueInfos renderer ! i)) \<and>
         ((\<forall>uvi \<in> set (uniqueValueInfos renderer).
             uvi_value uvi \<noteq> compositeKey rt attributes renderer v1) \<longrightarrow>
          info = defaultInfo renderer))) \<and>
   searchRenderer rt attributesAB abRenderer =
     Inr (valueInfo (uniqueValueInfos abRenderer ! 0), []) \<and>
   searchRenderer rt attributesAC abRenderer = Inr (defaultInfo abRenderer, [])"
proof -
  have general: "\<exists>info. searchRenderer rt attributes renderer = Inr (info, []) \<and>
         (\<forall>i<length (uniqueValueInfos renderer).
            uvi_value (uniqueValueInfos renderer ! i) = compositeKey rt attributes renderer v1 \<and>
            (\<forall>j<i. uvi_value (uniqueValueInfos renderer ! j) \<noteq>
                     compositeKey rt attributes renderer v1) \<longrightarrow>
            info = valueInfo (uniqueValueInfos renderer ! i)) \<and>
         ((\<forall>uvi \<in> set (uniqueValueInfos renderer).
             uvi_value uvi \<noteq> compositeKey rt attributes renderer v1) \<longrightarrow>
          info = defaultInfo renderer)"
    if ty: "r_type renderer = Some UNIQUE_VALUE"
      and at: "attributes (strOrUndefined (field1 renderer)) = Some v1"
      and nn: "v1 \<noteq> ANull"
  proof -
    let ?key = "compositeKey rt attributes renderer v1"
    let ?Q = "\<lambda>uvi. uvi_value uvi = ?key"
    let ?info = "case List.find ?Q (uniqueValueInfos renderer) of
            Some uvi \<Rightarrow> valueInfo uvi | None \<Rightarrow> defaultInfo renderer"
    have run: "searchRenderer rt attributes renderer = Inr (?info, [])"
      using searchRenderer_uniqueValue[where renderer = renderer and attributes = attributes
          and ?v1.0 = v1 and rt = rt] ty at nn by simp
    have hit: "\<forall>i<length (uniqueValueInfos renderer).
            ?Q (uniqueValueInfos renderer ! i) \<and>
            (\<forall>j<i. \<not> ?Q (uniqueValueInfos renderer ! j)) \<longrightarrow>
            ?info = valueInfo (uniqueValueInfos renderer ! i)"
    proof (intro allI impI)
      fix i
      assume i: "i < length (uniqueValueInfos renderer)"
        and h: "?Q (uniqueValueInfos renderer ! i) \<and> (\<forall>j<i. \<not> ?Q (uniqueValueInfos renderer ! j))"
      have "List.find ?Q (uniqueValueInfos renderer) = Some (uniqueValueInfos renderer ! i)"
        using find_first_nth[of i "uniqueValueInfos renderer" ?Q] i h by blast
      then show "?info = valueInfo (uniqueValueInfos renderer ! i)" by simp
    qed
    have miss: "(\<forall>uvi \<in> set (uniqueValueInfos renderer). \<not> ?Q uvi) \<longrightarrow> ?info = defaultInfo renderer"
    proof
      assume "\<forall>uvi \<in> set (uniqueValueInfos renderer). \<not> ?Q uvi"
      then have "List.find ?Q (uniqueValueInfos renderer) = None"
        unfolding find_None_iff by blast
      then show "?info = defaultInfo renderer" by simp
    qed
    from run hit miss show ?thesis by blast
  qed
  have ab: "searchRenderer rt attributesAB abRenderer =
     Inr (valueInfo (uniqueValueInfos abRenderer ! 0), [])"
    using searchRenderer_uniqueValue[where renderer = abRenderer and attributes = attributesAB
        and ?v1.0 = "AStr ''A''" and rt = rt]
    by (simp add: abRenderer_def blankRenderer_def attributesAB_def strOrUndefined_def
        compositeKey_def truthy_def attrToString_def getProperty_def)
  have ac: "searchRenderer rt attributesAC abRenderer = Inr (defaultInfo abRenderer, [])"
    using searchRenderer_uniqueValue[where renderer = abRenderer and attributes = attributesAC
        and ?v1.0 = "AStr ''A''" and rt = rt]
    by (simp add: abRenderer_def blankRenderer_def attributesAC_def strOrUndefined_def
        compositeKey_def truthy_def attrToString_def getProperty_def)
  from general ab ac show ?thesis by blast
qed

theorem uniqueValue_composite_key_witness:
  "compositeKey sampleRuntime attributesAB abRenderer (AStr ''A'') = ''A, B'' \<and>
   searchRenderer sampleRuntime attributesAB abRenderer =
     Inr (\<lparr>ri_imageUrl = Value ''icon-AB'', ri_symbol = SymbolVal None\<rparr>, []) \<and>
   compositeKey sampleRuntime attributesAC abRenderer (AStr ''A'') = ''A, C'' \<and>
   searchRenderer sampleRuntime attributesAC abRenderer =
     Inr (\<lparr>ri_imageUrl = Value ''icon-default'', ri_symbol = SymbolVal None\<rparr>, [])"
proof -
  have k: "compositeKey sampleRuntime attributesAB abRenderer (AStr ''A'') = ''A, B''"
    "compositeKey sampleRuntime attributesAC abRenderer (AStr ''A'') = ''A, C''"
    by (simp_all add: abRenderer_def blankRenderer_def attributesAB_def attributesAC_def
        strOrUndefined_def compositeKey_def truthy_def attrToString_def getProperty_def)
  have h: "r_type abRenderer = Some UNIQUE_VALUE"
    "attributesAB (strOrUndefined (field1 abRenderer)) = Some (AStr ''A'')"
    "attributesAC (strOrUndefined (field1 abRenderer)) = Some (AStr ''A'')"
    "uniqueValueInfos abRenderer =
       [\<lparr>uvi_value = ''A, B'', uvi_label = Some ''A and B'', uvi_symbol = None,
         uvi_imageUrl = Value ''icon-AB''\<rparr>]"
    by (simp_all add: abRenderer_def blankRenderer_def attributesAB_def attributesAC_def
        strOrUndefined_def)
  have "searchRenderer sampleRuntime attributesAB abRenderer =
     Inr (\<lparr>ri_imageUrl = Value ''icon-AB'', ri_symbol = SymbolVal None\<rparr>, [])"
    using uniqueValue_composite_key
      [of abRenderer attributesAB "AStr ''A''" sampleRuntime] h k
    by (auto simp: valueInfo_def)
  moreover have "searchRenderer sampleRuntime attributesAC abRenderer =
     Inr (\<lparr>ri_imageUrl = Value ''icon-default'', ri_symbol = SymbolVal None\<rparr>, [])"
    using uniqueValue_composite_key
      [of abRenderer attributesAC "AStr ''A''" sampleRuntime] h k
    by (auto simp: defaultInfo_def abRenderer_def blankRenderer_def)
  ultimately show ?thesis using k by blast
qed

section \<open>The legend builder\<close>

lemma try_keeps_vars_on_raise:
  "snd (symbolToLegend_try rt symbol vars) = Some e \<Longrightarrow>
   fst (symbolToLegend_try rt symbol vars) = vars"
  by (auto simp: symbolToLegend_try_def split: option.splits sum.splits if_splits)

lemma try_raise_independent:
  "snd (symbolToLegend_try rt symbol vars) = snd (symbolToLegend_try rt symbol vars')"
  by (auto simp: symbolToLegend_try_def split: option.splits sum.splits)

lemma try_keeps_label:
  "li_label (fst (symbolToLegend_try rt symbol vars)) = li_label vars"
  by (auto simp: symbolToLegend_try_def split: option.splits sum.splits)

lemma symbolToLegend_raise:
  assumes "conversionRaises rt symbol"
  shows "\<exists>e. symbolToLegend rt symbol label =
           (errorItem,
            [ConsoleError ''Issue encountered when converting symbol to legend image'' (Some e)])"
proof -
  let ?vars = "blankItem label"
  from assms obtain e where "snd (symbolToLegend_try rt symbol (blankItem None)) = Some e"
    by (auto simp: conversionRaises_def)
  then have e: "snd (symbolToLegend_try rt symbol ?vars) = Some e"
    using try_raise_independent[of rt symbol ?vars "blankItem None"] by simp
  then have "fst (symbolToLegend_try rt symbol ?vars) = ?vars"
    by (rule try_keeps_vars_on_raise)
  with e have "symbolToLegend_try rt symbol ?vars = (?vars, Some e)"
    by (metis prod.collapse)
  then have "symbolToLegend rt symbol label =
      (?vars\<lparr>li_label := Some ''Error!''\<rparr>,
       [ConsoleError ''Issue encountered when converting symbol to legend image'' (Some e)])"
    by (simp add: symbolToLegend_def blankItem_def)
  then show ?thesis by (auto simp: errorItem_def blankItem_def)
qed

lemma symbolToLegend_no_raise:
  assumes "\<not> conversionRaises rt symbol"
  shows "li_label (fst (symbolToLegend rt symbol label)) = label \<and>
         snd (symbolToLegend rt symbol label) = []"
proof -
  let ?vars = "blankItem label"
  from assms have "snd (symbolToLegend_try rt symbol (blankItem None)) = None"
    by (simp add: conversionRaises_def)
  then have "snd (symbolToLegend_try rt symbol ?vars) = None"
    using try_raise_independent[of rt symbol ?vars "blankItem None"] by simp
  then obtain v where v: "symbolToLegend_try rt symbol ?vars = (v, None)"
    by (metis prod.collapse)
  then have "symbolToLegend rt symbol label = (v, [])"
    by (simp add: symbolToLegend_def blankItem_def)
  then show ?thesis using try_keeps_label[of rt symbol ?vars] v by (simp add: blankItem_def)
qed

lemma text_symbol_raises:
  "sym_type s = Some ''esriTS'' \<Longrightarrow> conversionRaises rt (Some s)"
  by (simp add: conversionRaises_def symbolToLegend_try_def)

lemma symbolToLegend_text:
  "sym_type s = Some ''esriTS'' \<Longrightarrow>
   symbolToLegend rt (Some s) label =
     (errorItem,
      [ConsoleError ''Issue encountered when converting symbol to legend image''
         (Some (Error ''no support for feature service legend of text symbols''))])"
  by (simp add: symbolToLegend_def symbolToLegend_try_def errorItem_def blankItem_def)

lemma scrapeListRenderer_items:
  "fst (scrapeListRenderer rt renderer childList) =
     map (legendEntry rt) (childList @ defaultBranch renderer)"
  by (simp add: scrapeListRenderer_def defaultBranch_def legendEntry_def Let_def comp_def
      split: option.splits)

lemma rendererToLegend_layers:
  "layers (fst (rendererToLegend rt renderer index)) =
     [\<lparr>layerId = index, legend = map (legendEntry rt) (branches renderer)\<rparr>]"
  by (simp add: rendererToLegend_def branches_def scrapeListRenderer_items Let_def legendEntry_def)

lemma rendererToLegend_legendObj:
  "fst (rendererToLegend rt renderer index) =
     \<lparr>layers = [\<lparr>layerId = index, legend = map (legendEntry rt) (branches renderer)\<rparr>]\<rparr>"
  using rendererToLegend_layers[of rt renderer index] by (cases "fst (rendererToLegend rt renderer index)") simp

text \<open>
  C8. \<open>rendererToLegend\<close> returns a legend with exactly one layer entry, at index 0 of
  \<open>layers\<close>, whose \<open>layerId\<close> is the given index, whatever that index is. For a renderer
  whose type is not simple, uniqueValue or classBreaks the legend list of that entry is empty
  and one error is logged. For a supported renderer the legend list holds the entry generated
  for every branch, in the order of the branches: one entry for a simple renderer, and for a
  unique-value or class-breaks renderer one entry for each of its entries, followed by one
  for the default symbol when there is one.
\<close>

theorem rendererToLegend_one_layer:
  "(r_type renderer \<notin> {Some SIMPLE, Some UNIQUE_VALUE, Some CLASS_BREAKS} \<longrightarrow>
      rendererToLegend rt renderer index =
        (\<lparr>layers = [\<lparr>layerId = index, legend = []\<rparr>]\<rparr>,
         [ConsoleError (''encountered unsupported renderer legend type: '' @
                        strOrUndefined (r_type renderer)) None])) \<and>
   (r_type renderer \<in> {Some SIMPLE, Some UNIQUE_VALUE, Some CLASS_BREAKS} \<longrightarrow>
      fst (rendererToLegend rt renderer index) =
        \<lparr>layers = [\<lparr>layerId = index, legend = map (legendEntry rt) (branches renderer)\<rparr>]\<rparr>) \<and>
   (r_type renderer = Some SIMPLE \<longrightarrow>
      legend (layers (fst (rendererToLegend rt renderer index)) ! 0) =
        [fst (symbolToLegend rt (r_symbol renderer) (r_label renderer))]) \<and>
   (r_type renderer = Some UNIQUE_VALUE \<longrightarrow>
      length (legend (layers (fst (rendererToLegend rt renderer index)) ! 0)) =
        length (uniqueValueInfos renderer) + (if defaultSymbol renderer = None then 0 else 1)) \<and>
   (r_type renderer = Some CLASS_BREAKS \<longrightarrow>
      length (legend (layers (fst (rendererToLegend rt renderer index)) ! 0)) =
        length (classBreakInfos renderer) + (if defaultSymbol renderer = None then 0 else 1))"
proof -
  have unsupported: "r_type renderer \<notin> {Some SIMPLE, Some UNIQUE_VALUE, Some CLASS_BREAKS} \<longrightarrow>
      rendererToLegend rt renderer index =
        (\<lparr>layers = [\<lparr>layerId = index, legend = []\<rparr>]\<rparr>,
         [ConsoleError (''encountered unsupported renderer legend type: '' @
                        strOrUndefined (r_type renderer)) None])"
    by (simp add: rendererToLegend_def)
  have supported: "fst (rendererToLegend rt renderer index) =
        \<lparr>layers = [\<lparr>layerId = index, legend = map (legendEntry rt) (branches renderer)\<rparr>]\<rparr>"
    by (rule rendererToLegend_legendObj)
  have dflt: "length (defaultBranch renderer) = (if defaultSymbol renderer = None then 0 else 1)"
    by (simp add: defaultBranch_def split: option.splits)
  have simple: "r_type renderer = Some SIMPLE \<longrightarrow>
      legend (layers (fst (rendererToLegend rt renderer index)) ! 0) =
        [fst (symbolToLegend rt (r_symbol renderer) (r_label renderer))]"
    by (simp add: rendererToLegend_def Let_def)
  have uv: "r_type renderer = Some UNIQUE_VALUE \<longrightarrow>
      length (legend (layers (fst (rendererToLegend rt renderer index)) ! 0)) =
        length (uniqueValueInfos renderer) + (if defaultSymbol renderer = None then 0 else 1)"
    unfolding supported using dflt by (simp add: branches_def type_names_distinct)
  have cb: "r_type renderer = Some CLASS_BREAKS \<longrightarrow>
      length (legend (layers (fst (rendererToLegend rt renderer index)) ! 0)) =
        length (classBreakInfos renderer) + (if defaultSymbol renderer = None then 0 else 1)"
    unfolding supported using dflt by (simp add: branches_def type_names_distinct)
  from supported
  have sup: "r_type renderer \<in> {Some SIMPLE, Some UNIQUE_VALUE, Some CLASS_BREAKS} \<longrightarrow>
      fst (rendererToLegend rt renderer index) =
        \<lparr>layers = [\<lparr>layerId = index, legend = map (legendEntry rt) (branches renderer)\<rparr>]\<rparr>"
    by (rule impI)
  from unsupported sup simple uv cb show ?thesis by (intro conjI)
qed

theorem rendererToLegend_one_layer_witness:
  "rendererToLegend sampleRuntime unknownRenderer 7 =
     (\<lparr>layers = [\<lparr>layerId = 7, legend = []\<rparr>]\<rparr>,
      [ConsoleError ''encountered unsupported renderer legend type: heatmap'' None]) \<and>
   fst (rendererToLegend sampleRuntime mixedRenderer 3) =
     \<lparr>layers = [\<lparr>layerId = 3,
                  legend = [legendEntry sampleRuntime (Some textSymbol, Some ''Names''),
                            legendEntry sampleRuntime (Some lineSymbol, Some ''Roads'')]\<rparr>]\<rparr> \<and>
   length (legend (layers (fst (rendererToLegend sampleRuntime mixedRenderer 3)) ! 0)) = 2"
proof -
  have u: "r_type unknownRenderer \<notin> {Some SIMPLE, Some UNIQUE_VALUE, Some CLASS_BREAKS}"
    by (simp add: unknownRenderer_def blankRenderer_def SIMPLE_def UNIQUE_VALUE_def CLASS_BREAKS_def)
  have m: "r_type mixedRenderer \<in> {Some SIMPLE, Some UNIQUE_VALUE, Some CLASS_BREAKS}"
    and ty: "r_type mixedRenderer = Some UNIQUE_VALUE"
    and n: "length (uniqueValueInfos mixedRenderer) = 2" "defaultSymbol mixedRenderer = None"
    by (simp_all add: mixedRenderer_def blankRenderer_def)
  have b: "branches mixedRenderer = [(Some textSymbol, Some ''Names''), (Some lineSymbol, Some ''Roads'')]"
    by (simp add: branches_def defaultBranch_def mixedRenderer_def blankRenderer_def type_names_distinct)
  from u rendererToLegend_one_layer [of unknownRenderer sampleRuntime 7]
  have c1: "rendererToLegend sampleRuntime unknownRenderer 7 =
     (\<lparr>layers = [\<lparr>layerId = 7, legend = []\<rparr>]\<rparr>,
      [ConsoleError ''encountered unsupported renderer legend type: heatmap'' None])"
    by (simp add: unknownRenderer_def blankRenderer_def strOrUndefined_def)
  from m rendererToLegend_one_layer [of mixedRenderer sampleRuntime 3]
  have c2: "fst (rendererToLegend sampleRuntime mixedRenderer 3) =
     \<lparr>layers = [\<lparr>layerId = 3,
                  legend = [legendEntry sampleRuntime (Some textSymbol, Some ''Names''),
                            legendEntry sampleRuntime (Some lineSymbol, Some ''Roads'')]\<rparr>]\<rparr>"
    by (simp add: b)
  have c3: "length (legend (layers (fst (rendererToLegend sampleRuntime mixedRenderer 3)) ! 0)) = 2"
    unfolding c2 by simp
  from c1 c2 c3 show ?thesis by (intro conjI)
qed

text \<open>
  C5. A text symbol (\<open>esriTS\<close>) gives the entry with the blank 32x32 image and the label
  \<open>Error!\<close>, and so does every symbol whose conversion raises: the exception is caught
  inside \<open>symbolToLegend\<close>, which logs it. A conversion that does not raise keeps the
  label and logs nothing. \<open>rendererToLegend\<close> returns one entry for every branch of the
  renderer, each the conversion of that branch alone: a branch that fails becomes the blank
  entry at its own position and no other entry is lost.
\<close>

theorem text_symbol_blank_entry:
  "(sym_type s = Some ''esriTS'' \<longrightarrow>
      symbolToLegend rt (Some s) label =
        (errorItem,
         [ConsoleError ''Issue encountered when converting symbol to legend image''
            (Some (Error ''no support for feature service legend of text symbols''))])) \<and>
   (conversionRaises rt symbol \<longrightarrow>
      (\<exists>e. symbolToLegend rt symbol label =
         (errorItem,
          [ConsoleError ''Issue encountered when converting symbol to legend image'' (Some e)]))) \<and>
   (\<not> conversionRaises rt symbol \<longrightarrow>
      li_label (fst (symbolToLegend rt symbol label)) = label \<and>
      snd (symbolToLegend rt symbol label) = []) \<and>
   (\<exists>items. layers (fst (rendererToLegend rt renderer index)) = [\<lparr>layerId = index, legend = items\<rparr>] \<and>
      length items = length (branches renderer) \<and>
      (\<forall>i<length (branches renderer).
         items ! i = legendEntry rt (branches renderer ! i) \<and>
         ((\<exists>t. fst (branches renderer ! i) = Some t \<and> sym_type t = Some ''esriTS'') \<longrightarrow>
            items ! i = errorItem) \<and>
         (conversionRaises rt (fst (branches renderer ! i)) \<longrightarrow> items ! i = errorItem)))"
proof -
  have raise: "legendEntry rt b = errorItem" if "conversionRaises rt (fst b)" for b
    using symbolToLegend_raise[OF that, of "snd b"] by (auto simp: legendEntry_def)
  have istext: "legendEntry rt b = errorItem"
    if "\<exists>t. fst b = Some t \<and> sym_type t = Some ''esriTS''" for b
  proof -
    from that obtain t where t: "fst b = Some t" "sym_type t = Some ''esriTS''" by blast
    have "conversionRaises rt (fst b)"
      unfolding t(1) by (rule text_symbol_raises[OF t(2)])
    then show ?thesis by (rule raise)
  qed
  let ?items = "map (legendEntry rt) (branches renderer)"
  have nth: "?items ! i = legendEntry rt (branches renderer ! i)"
    if "i < length (branches renderer)" for i
    using that by (rule nth_map)
  have each: "\<forall>i<length (branches renderer).
         ?items ! i = legendEntry rt (branches renderer ! i) \<and>
         ((\<exists>t. fst (branches renderer ! i) = Some t \<and> sym_type t = Some ''esriTS'') \<longrightarrow>
            ?items ! i = errorItem) \<and>
         (conversionRaises rt (fst (branches renderer ! i)) \<longrightarrow> ?items ! i = errorItem)"
  proof (intro allI impI conjI)
    fix i assume i: "i < length (branches renderer)"
    show "?items ! i = legendEntry rt (branches renderer ! i)" by (rule nth[OF i])
    {
      assume "\<exists>t. fst (branches renderer ! i) = Some t \<and> sym_type t = Some ''esriTS''"
      then show "?items ! i = errorItem" unfolding nth[OF i] by (rule istext)
    }
    {
      assume "conversionRaises rt (fst (branches renderer ! i))"
      then show "?items ! i = errorItem" unfolding nth[OF i] by (rule raise)
    }
  qed
  have lay: "layers (fst (rendererToLegend rt renderer index)) = [\<lparr>layerId = index, legend = ?items\<rparr>]"
    by (rule rendererToLegend_layers)
  have len: "length ?items = length (branches renderer)" by simp
  have items: "\<exists>items. layers (fst (rendererToLegend rt renderer index)) =
        [\<lparr>layerId = index, legend = items\<rparr>] \<and>
      length items = length (branches renderer) \<and>
      (\<forall>i<length (branches renderer).
         items ! i = legendEntry rt (branches renderer ! i) \<and>
         ((\<exists>t. fst (branches renderer ! i) = Some t \<and> sym_type t = Some ''esriTS'') \<longrightarrow>
            items ! i = errorItem) \<and>
         (conversionRaises rt (fst (branches renderer ! i)) \<longrightarrow> items ! i = errorItem))"
    using lay len each by (intro exI[of _ ?items] conjI)
  have one: "sym_type s = Some ''esriTS'' \<longrightarrow>
      symbolToLegend rt (Some s) label =
        (errorItem,
         [ConsoleError ''Issue encountered when converting symbol to legend image''
            (Some (Error ''no support for feature service legend of text symbols''))])"
    using symbolToLegend_text[of s rt label] by (rule impI)
  have two: "conversionRaises rt symbol \<longrightarrow>
      (\<exists>e. symbolToLegend rt symbol label =
         (errorItem,
          [ConsoleError ''Issue encountered when converting symbol to legend image'' (Some e)]))"
    using symbolToLegend_raise[of rt symbol label] by (rule impI)
  have three: "\<not> conversionRaises rt symbol \<longrightarrow>
      li_label (fst (symbolToLegend rt symbol label)) = label \<and>
      snd (symbolToLegend rt symbol label) = []"
    using symbolToLegend_no_raise[of rt symbol label] by (rule impI)
  from one two three items show ?thesis by (intro conjI)
qed

lemma lineSymbol_converts: "\<not> conversionRaises rt (Some lineSymbol)"
  by (simp add: conversionRaises_def symbolToLegend_try_def makeSVG_def makeLineSVG_def
      applyLine_def colourToOpacity_def lineSymbol_def Let_def)

theorem text_symbol_blank_entry_witness:
  "symbolToLegend sampleRuntime (Some textSymbol) (Some ''Names'') =
     (errorItem,
      [ConsoleError ''Issue encountered when converting symbol to legend image''
         (Some (Error ''no support for feature service legend of text symbols''))]) \<and>
   li_label (fst (symbolToLegend sampleRuntime (Some lineSymbol) (Some ''Roads''))) = Some ''Roads'' \<and>
   (\<exists>items. layers (fst (rendererToLegend sampleRuntime mixedRenderer 0)) =
        [\<lparr>layerId = 0, legend = items\<rparr>] \<and>
      length items = 2 \<and> items ! 0 = errorItem \<and>
      items ! 1 = legendEntry sampleRuntime (Some lineSymbol, Some ''Roads''))"
proof -
  have t: "sym_type textSymbol = Some ''esriTS''" by (simp add: textSymbol_def)
  have b: "branches mixedRenderer = [(Some textSymbol, Some ''Names''), (Some lineSymbol, Some ''Roads'')]"
    by (simp add: branches_def defaultBranch_def mixedRenderer_def blankRenderer_def type_names_distinct)
  have one: "symbolToLegend sampleRuntime (Some textSymbol) (Some ''Names'') =
     (errorItem,
      [ConsoleError ''Issue encountered when converting symbol to legend image''
         (Some (Error ''no support for feature service legend of text symbols''))])"
    using text_symbol_blank_entry [of textSymbol sampleRuntime "Some ''Names''"] t by blast
  have two: "li_label (fst (symbolToLegend sampleRuntime (Some lineSymbol) (Some ''Roads''))) = Some ''Roads''"
    using text_symbol_blank_entry [of textSymbol sampleRuntime "Some ''Roads''" "Some lineSymbol"]
      lineSymbol_converts by blast
  obtain items where items:
    "layers (fst (rendererToLegend sampleRuntime mixedRenderer 0)) = [\<lparr>layerId = 0, legend = items\<rparr>]"
    "length items = length (branches mixedRenderer)"
    "\<forall>i<length (branches mixedRenderer).
         items ! i = legendEntry sampleRuntime (branches mixedRenderer ! i) \<and>
         ((\<exists>t. fst (branches mixedRenderer ! i) = Some t \<and> sym_type t = Some ''esriTS'') \<longrightarrow>
            items ! i = errorItem) \<and>
         (conversionRaises sampleRuntime (fst (branches mixedRenderer ! i)) \<longrightarrow> items ! i = errorItem)"
    using text_symbol_blank_entry [of textSymbol sampleRuntime None None mixedRenderer 0] by blast
  have len: "0 < length (branches mixedRenderer)" "1 < length (branches mixedRenderer)"
    by (simp_all add: b)
  have ex0: "\<exists>t. fst (branches mixedRenderer ! 0) = Some t \<and> sym_type t = Some ''esriTS''"
    using t by (simp add: b)
  from items(3) len(1) ex0 have "items ! 0 = errorItem" by blast
  moreover from items(3) len(2)
  have "items ! 1 = legendEntry sampleRuntime (branches mixedRenderer ! 1)" by blast
  then have "items ! 1 = legendEntry sampleRuntime (Some lineSymbol, Some ''Roads'')"
    by (simp add: b)
  ultimately show ?thesis using one two items(1,2) by (simp add: b)
qed

section \<open>The renderer enhancer\<close>

lemma enhanceRenderer_returns:
  "layers legendO \<noteq> [] \<Longrightarrow> \<exists>r' lg. enhanceRenderer renderer legendO = Inr (r', lg)"
  by (cases "layers legendO") (simp_all add: enhanceRenderer_def Let_def)

lemma enhanceRenderer_unknown:
  assumes "enhanceRenderer renderer legendO = Inr (r', lg)"
    and "r_type renderer \<notin> {Some SIMPLE, Some UNIQUE_VALUE, Some CLASS_BREAKS}"
  shows "r' = renderer"
  using assms by (cases "layers legendO") (auto simp: enhanceRenderer_def Let_def)

lemma enhanceRenderer_simple:
  assumes "enhanceRenderer renderer legendO = Inr (r', lg)"
    and "r_type renderer = Some SIMPLE"
  shows "r' = renderer\<lparr>r_imageUrl := r_imageUrl r'\<rparr>"
  using assms by (cases "layers legendO") (auto simp: enhanceRenderer_def Let_def)

lemma enhanceRenderer_uniqueValue:
  assumes "enhanceRenderer renderer legendO = Inr (r', lg)"
    and "r_type renderer = Some UNIQUE_VALUE"
  shows "r' = renderer\<lparr>defaultImageUrl := defaultImageUrl r',
                        uniqueValueInfos := uniqueValueInfos r'\<rparr> \<and>
         (\<not> truthy (defaultLabel renderer) \<longrightarrow> defaultImageUrl r' = defaultImageUrl renderer) \<and>
         length (uniqueValueInfos r') = length (uniqueValueInfos renderer) \<and>
         (\<forall>i<length (uniqueValueInfos renderer).
            uniqueValueInfos r' ! i =
              (uniqueValueInfos renderer ! i)\<lparr>uvi_imageUrl := uvi_imageUrl (uniqueValueInfos r' ! i)\<rparr>)"
  using assms
  by (cases "layers legendO") (auto simp: enhanceRenderer_def Let_def type_names_distinct)

lemma enhanceRenderer_classBreaks:
  assumes "enhanceRenderer renderer legendO = Inr (r', lg)"
    and "r_type renderer = Some CLASS_BREAKS"
  shows "r' = renderer\<lparr>defaultImageUrl := defaultImageUrl r',
                        classBreakInfos := classBreakInfos r'\<rparr> \<and>
         (\<not> truthy (defaultLabel renderer) \<longrightarrow> defaultImageUrl r' = defaultImageUrl renderer) \<and>
         length (classBreakInfos r') = length (classBreakInfos renderer) \<and>
         (\<forall>i<length (classBreakInfos renderer).
            classBreakInfos r' ! i =
              (classBreakInfos renderer ! i)\<lparr>cbi_imageUrl := cbi_imageUrl (classBreakInfos r' ! i)\<rparr>)"
  using assms
  by (cases "layers legendO") (auto simp: enhanceRenderer_def Let_def type_names_distinct)

text \<open>
  C9. \<open>enhanceRenderer\<close> returns whenever the legend has a layer, and what it returns is
  the renderer with only the icon fields set: a renderer of an unknown type is unchanged; a
  simple renderer differs at most in \<open>imageUrl\<close>; a unique-value or class-breaks renderer
  differs at most in \<open>defaultImageUrl\<close> (only when \<open>defaultLabel\<close> is set) and in the
  \<open>imageUrl\<close> of each entry, the entries keeping their number, order and other fields.
  When it raises (no layer in the legend) nothing has been written.
\<close>

theorem enhanceRenderer_frame:
  "(layers legendO \<noteq> [] \<longrightarrow> (\<exists>r1 lg1. enhanceRenderer renderer legendO = Inr (r1, lg1))) \<and>
   (enhanceRenderer renderer legendO = Inr (r', lg) \<longrightarrow>
      (r_type renderer \<notin> {Some SIMPLE, Some UNIQUE_VALUE, Some CLASS_BREAKS} \<longrightarrow> r' = renderer) \<and>
      (r_type renderer = Some SIMPLE \<longrightarrow> r' = renderer\<lparr>r_imageUrl := r_imageUrl r'\<rparr>) \<and>
      (r_type renderer = Some UNIQUE_VALUE \<longrightarrow>
         r' = renderer\<lparr>defaultImageUrl := defaultImageUrl r',
                         uniqueValueInfos := uniqueValueInfos r'\<rparr> \<and>
         (\<not> truthy (defaultLabel renderer) \<longrightarrow> defaultImageUrl r' = defaultImageUrl renderer) \<and>
         length (uniqueValueInfos r') = length (uniqueValueInfos renderer) \<and>
         (\<forall>i<length (uniqueValueInfos renderer).
            uniqueValueInfos r' ! i =
              (uniqueValueInfos renderer ! i)\<lparr>uvi_imageUrl := uvi_imageUrl (uniqueValueInfos r' ! i)\<rparr>)) \<and>
      (r_type renderer = Some CLASS_BREAKS \<longrightarrow>
         r' = renderer\<lparr>defaultImageUrl := defaultImageUrl r',
                         classBreakInfos := classBreakInfos r'\<rparr> \<and>
         (\<not> truthy (defaultLabel renderer) \<longrightarrow> defaultImageUrl r' = defaultImageUrl renderer) \<and>
         length (classBreakInfos r') = length (classBreakInfos renderer) \<and>
         (\<forall>i<length (classBreakInfos renderer).
            classBreakInfos r' ! i =
              (classBreakInfos renderer ! i)\<lparr>cbi_imageUrl := cbi_imageUrl (classBreakInfos r' ! i)\<rparr>)))"
proof (intro conjI impI)
  assume "layers legendO \<noteq> []"
  then show "\<exists>r1 lg1. enhanceRenderer renderer legendO = Inr (r1, lg1)"
    by (rule enhanceRenderer_returns)
next
  assume run: "enhanceRenderer renderer legendO = Inr (r', lg)"
  {
    assume "r_type renderer \<notin> {Some SIMPLE, Some UNIQUE_VALUE, Some CLASS_BREAKS}"
    with run show "r' = renderer" by (rule enhanceRenderer_unknown)
  }
  {
    assume "r_type renderer = Some SIMPLE"
    with run show "r' = renderer\<lparr>r_imageUrl := r_imageUrl r'\<rparr>" by (rule enhanceRenderer_simple)
  }
  {
    assume ty: "r_type renderer = Some UNIQUE_VALUE"
    note uv = enhanceRenderer_uniqueValue[OF run ty]
    from uv show "r' = renderer\<lparr>defaultImageUrl := defaultImageUrl r',
                         uniqueValueInfos := uniqueValueInfos r'\<rparr>" by (rule conjunct1)
    from uv show "length (uniqueValueInfos r') = length (uniqueValueInfos renderer)" by blast
    from uv show "\<forall>i<length (uniqueValueInfos renderer).
            uniqueValueInfos r' ! i =
              (uniqueValueInfos renderer ! i)\<lparr>uvi_imageUrl := uvi_imageUrl (uniqueValueInfos r' ! i)\<rparr>"
      by blast
    assume "\<not> truthy (defaultLabel renderer)"
    with uv show "defaultImageUrl r' = defaultImageUrl renderer" by blast
  }
  {
    assume ty: "r_type renderer = Some CLASS_BREAKS"
    note cb = enhanceRenderer_classBreaks[OF run ty]
    from cb show "r' = renderer\<lparr>defaultImageUrl := defaultImageUrl r',
                         classBreakInfos := classBreakInfos r'\<rparr>" by (rule conjunct1)
    from cb show "length (classBreakInfos r') = length (classBreakInfos renderer)" by blast
    from cb show "\<forall>i<length (classBreakInfos renderer).
            classBreakInfos r' ! i =
              (classBreakInfos renderer ! i)\<lparr>cbi_imageUrl := cbi_imageUrl (classBreakInfos r' ! i)\<rparr>"
      by blast
    assume "\<not> truthy (defaultLabel renderer)"
    with cb show "defaultImageUrl r' = defaultImageUrl renderer" by blast
  }
qed

theorem enhanceRenderer_frame_witness:
  "(\<exists>lg. enhanceRenderer unknownRenderer roadsLegend = Inr (unknownRenderer, lg)) \<and>
   (\<exists>r' lg. enhanceRenderer roadsRenderer roadsLegend = Inr (r', lg) \<and>
      r' = roadsRenderer\<lparr>r_imageUrl := r_imageUrl r'\<rparr>)"
proof -
  have l: "layers roadsLegend \<noteq> []" by (simp add: roadsLegend_def)
  have u: "r_type unknownRenderer \<notin> {Some SIMPLE, Some UNIQUE_VALUE, Some CLASS_BREAKS}"
    by (simp add: unknownRenderer_def blankRenderer_def SIMPLE_def UNIQUE_VALUE_def CLASS_BREAKS_def)
  have s: "r_type roadsRenderer = Some SIMPLE"
    by (simp add: roadsRenderer_def blankRenderer_def)
  obtain r1 lg1 where r1: "enhanceRenderer unknownRenderer roadsLegend = Inr (r1, lg1)"
    using enhanceRenderer_frame [of roadsLegend unknownRenderer] l by blast
  then have "r1 = unknownRenderer"
    using enhanceRenderer_frame [of roadsLegend unknownRenderer r1 lg1] u by blast
  with r1 have a: "\<exists>lg. enhanceRenderer unknownRenderer roadsLegend = Inr (unknownRenderer, lg)"
    by blast
  obtain r2 lg2 where r2: "enhanceRenderer roadsRenderer roadsLegend = Inr (r2, lg2)"
    using enhanceRenderer_frame [of roadsLegend roadsRenderer] l by blast
  then have "r2 = roadsRenderer\<lparr>r_imageUrl := r_imageUrl r2\<rparr>"
    using enhanceRenderer_frame [of roadsLegend roadsRenderer r2 lg2] s by blast
  with r2 have b: "\<exists>r' lg. enhanceRenderer roadsRenderer roadsLegend = Inr (r', lg) \<and>
      r' = roadsRenderer\<lparr>r_imageUrl := r_imageUrl r'\<rparr>"
    by blast
  from a b show ?thesis by (rule conjI)
qed

section \<open>Legend and enhancement together\<close>

lemma getProperty_setProperty_same:
  "k \<noteq> ''__proto__'' \<Longrightarrow> getProperty (setProperty obj k v) k = Value v"
  by (simp add: getProperty_def setProperty_def)

lemma getProperty_setProperty_other:
  "k' \<noteq> k \<Longrightarrow> getProperty (setProperty obj k v) k' = getProperty obj k'"
  by (simp add: getProperty_def setProperty_def)

lemma legendLookup_snoc:
  "legendLookup (items @ [x]) = setProperty (legendLookup items) (labelKey x) (dataUrl x)"
  by (simp add: legendLookup_def labelKey_def)

text \<open>The lookup holds, under a key, the data URL of the last legend item stored under it.\<close>

lemma legendLookup_last:
  assumes np: "labelKey x \<noteq> ''__proto__''"
    and later: "\<forall>y\<in>set later. labelKey y \<noteq> labelKey x"
  shows "getProperty (legendLookup (earlier @ x # later)) (labelKey x) = Value (dataUrl x)"
  using later
proof (induction later rule: rev_induct)
  case Nil
  have "legendLookup (earlier @ [x]) = setProperty (legendLookup earlier) (labelKey x) (dataUrl x)"
    by (rule legendLookup_snoc)
  with np show ?case by (simp add: getProperty_setProperty_same)
next
  case (snoc y ys)
  from snoc.prems have ne: "labelKey x \<noteq> labelKey y" by auto
  from snoc.prems have rest: "\<forall>y\<in>set ys. labelKey y \<noteq> labelKey x" by simp
  have "legendLookup ((earlier @ x # ys) @ [y]) =
        setProperty (legendLookup (earlier @ x # ys)) (labelKey y) (dataUrl y)"
    by (rule legendLookup_snoc)
  then have "getProperty (legendLookup ((earlier @ x # ys) @ [y])) (labelKey x) =
        getProperty (legendLookup (earlier @ x # ys)) (labelKey x)"
    by (simp only: getProperty_setProperty_other[OF ne])
  also have "\<dots> = Value (dataUrl x)" by (rule snoc.IH[OF rest])
  finally show ?case by simp
qed

text \<open>The key a legend entry is stored under: \<open>Error!\<close> when the conversion raised.\<close>

lemma legendEntry_key:
  "labelKey (legendEntry rt branch) =
     (if conversionRaises rt (fst branch) then ''Error!'' else branchKey branch)"
proof (cases "conversionRaises rt (fst branch)")
  case True
  from symbolToLegend_raise[OF True, of "snd branch"]
  have "fst (symbolToLegend rt (fst branch) (snd branch)) = errorItem" by auto
  with True show ?thesis
    by (simp add: legendEntry_def labelKey_def errorItem_def blankItem_def strOrUndefined_def)
next
  case False
  from symbolToLegend_no_raise[OF False, of "snd branch"]
  have "li_label (fst (symbolToLegend rt (fst branch) (snd branch))) = snd branch" by simp
  with False show ?thesis by (simp add: legendEntry_def labelKey_def branchKey_def)
qed

lemma attached_lookup:
  assumes d: "distinct (map branchKey (earlier @ branch # later))"
  shows "attached rt branch later
           (getProperty (legendLookup (map (legendEntry rt) (earlier @ branch # later)))
              (branchKey branch))"
  unfolding attached_def
proof (intro impI)
  assume a: "\<not> conversionRaises rt (fst branch) \<and> branchKey branch \<noteq> ''__proto__'' \<and>
             (branchKey branch = ''Error!'' \<longrightarrow> (\<forall>b\<in>set later. \<not> conversionRaises rt (fst b)))"
  let ?x = "legendEntry rt branch"
  from a have k: "labelKey ?x = branchKey branch" by (simp add: legendEntry_key)
  from a k have np: "labelKey ?x \<noteq> ''__proto__''" by simp
  have later: "\<forall>y\<in>set (map (legendEntry rt) later). labelKey y \<noteq> labelKey ?x"
  proof
    fix y assume "y \<in> set (map (legendEntry rt) later)"
    then obtain b where b: "b \<in> set later" and y: "y = legendEntry rt b" by auto
    from d have "branchKey branch \<notin> set (map branchKey later)" by simp
    with b have ne: "branchKey b \<noteq> branchKey branch" by (metis imageI set_map)
    show "labelKey y \<noteq> labelKey ?x"
    proof (cases "conversionRaises rt (fst b)")
      case True
      with a b have "branchKey branch \<noteq> ''Error!''" by blast
      with True show ?thesis unfolding y k by (simp add: legendEntry_key)
    next
      case False
      with ne show ?thesis unfolding y k by (simp add: legendEntry_key)
    qed
  qed
  have "map (legendEntry rt) (earlier @ branch # later) =
        map (legendEntry rt) earlier @ ?x # map (legendEntry rt) later" by simp
  with legendLookup_last[OF np later, of "map (legendEntry rt) earlier"] k
  show "getProperty (legendLookup (map (legendEntry rt) (earlier @ branch # later)))
          (branchKey branch) = Value (dataUrl ?x)"
    by simp
qed

lemma attached_branch:
  assumes d: "distinct (map branchKey bs)" and s: "bs = earlier @ (sy, label) # later"
  shows "attached rt (sy, label) later
           (getProperty (legendLookup (map (legendEntry rt) bs)) (strOrUndefined label))"
proof -
  from d s have "distinct (map branchKey (earlier @ (sy, label) # later))" by simp
  from attached_lookup[OF this, of rt] s show ?thesis by (simp add: branchKey_def)
qed

lemma branches_split:
  assumes "i < length xs"
  shows "map f xs @ ys = take i (map f xs @ ys) @ f (xs ! i) # drop (Suc i) (map f xs @ ys)"
proof -
  from assms have i: "i < length (map f xs @ ys)" by simp
  from assms have n: "(map f xs @ ys) ! i = f (xs ! i)" by (simp add: nth_append)
  from id_take_nth_drop[OF i] show ?thesis unfolding n .
qed

lemma enhanceRenderer_result:
  assumes "layers legendO = [\<lparr>layerId = n, legend = items\<rparr>]"
  shows "\<exists>r' lg. enhanceRenderer renderer legendO = Inr (r', lg) \<and>
     (r_type renderer = Some SIMPLE \<longrightarrow>
        r_imageUrl r' = getProperty (legendLookup items) (strOrUndefined (r_label renderer))) \<and>
     (r_type renderer = Some UNIQUE_VALUE \<longrightarrow>
        uniqueValueInfos r' =
          map (\<lambda>uvi. uvi\<lparr>uvi_imageUrl :=
                 getProperty (legendLookup items) (strOrUndefined (uvi_label uvi))\<rparr>)
            (uniqueValueInfos renderer) \<and>
        (truthy (defaultLabel renderer) \<longrightarrow>
           defaultImageUrl r' =
             getProperty (legendLookup items) (strOrUndefined (defaultLabel renderer)))) \<and>
     (r_type renderer = Some CLASS_BREAKS \<longrightarrow>
        classBreakInfos r' =
          map (\<lambda>cbi. cbi\<lparr>cbi_imageUrl :=
                 getProperty (legendLookup items) (strOrUndefined (cbi_label cbi))\<rparr>)
            (classBreakInfos renderer) \<and>
        (truthy (defaultLabel renderer) \<longrightarrow>
           defaultImageUrl r' =
             getProperty (legendLookup items) (strOrUndefined (defaultLabel renderer))))"
  using assms by (simp add: enhanceRenderer_def Let_def type_names_distinct)

text \<open>
  C4 (amended). Build the legend of a renderer with \<open>rendererToLegend\<close>, at index 0 or any
  other, and enhance the renderer with it. When the labels of the branches are pairwise
  distinct as keys (the labels the legend is built with: the default branch is there when a
  default symbol is configured, under \<open>defaultLabel || ''\<close>), the legend holds the entry
  generated for each branch, in order, the enhancement returns, and a branch gets exactly the
  data URL of the legend entry generated for it whenever the conversion of its symbol does
  not raise, its label is not the key \<open>__proto__\<close>, and, if its label is \<open>Error!\<close>, no
  branch after it fails to convert. This holds for \<open>imageUrl\<close> of a simple renderer, for
  \<open>imageUrl\<close> of each unique-value or class-breaks entry, and for \<open>defaultImageUrl\<close>
  when a default label and a default symbol are configured. Other branches may fail to
  convert: they do not disturb the branches that convert.
\<close>

theorem legend_round_trip:
  "distinct (map branchKey (branches renderer)) \<longrightarrow>
   legend (layers (fst (rendererToLegend rt renderer index)) ! 0) =
     map (legendEntry rt) (branches renderer) \<and>
   (\<exists>r' lg. enhanceRenderer renderer (fst (rendererToLegend rt renderer index)) = Inr (r', lg) \<and>
      (r_type renderer = Some SIMPLE \<longrightarrow>
         attached rt (r_symbol renderer, r_label renderer) [] (r_imageUrl r')) \<and>
      (r_type renderer = Some UNIQUE_VALUE \<longrightarrow>
         length (uniqueValueInfos r') = length (uniqueValueInfos renderer) \<and>
         (\<forall>i<length (uniqueValueInfos renderer).
            attached rt (uvi_symbol (uniqueValueInfos renderer ! i),
                         uvi_label (uniqueValueInfos renderer ! i))
              (drop (Suc i) (branches renderer))
              (uvi_imageUrl (uniqueValueInfos r' ! i))) \<and>
         (truthy (defaultLabel renderer) \<longrightarrow>
            (\<forall>d. defaultSymbol renderer = Some d \<longrightarrow>
               attached rt (Some d, defaultLabel renderer) [] (defaultImageUrl r')))) \<and>
      (r_type renderer = Some CLASS_BREAKS \<longrightarrow>
         length (classBreakInfos r') = length (classBreakInfos renderer) \<and>
         (\<forall>i<length (classBreakInfos renderer).
            attached rt (cbi_symbol (classBreakInfos renderer ! i),
                         cbi_label (classBreakInfos renderer ! i))
              (drop (Suc i) (branches renderer))
              (cbi_imageUrl (classBreakInfos r' ! i))) \<and>
         (truthy (defaultLabel renderer) \<longrightarrow>
            (\<forall>d. defaultSymbol renderer = Some d \<longrightarrow>
               attached rt (Some d, defaultLabel renderer) [] (defaultImageUrl r')))))"
proof (intro impI conjI)
  show "legend (layers (fst (rendererToLegend rt renderer index)) ! 0) =
      map (legendEntry rt) (branches renderer)"
    by (simp add: rendererToLegend_layers)
next
  let ?items = "map (legendEntry rt) (branches renderer)"
  let ?look = "legendLookup ?items"
  assume d: "distinct (map branchKey (branches renderer))"
  note att = attached_branch[OF d]
  have dflt: "attached rt (Some s, defaultLabel renderer) []
                (getProperty ?look (strOrUndefined (defaultLabel renderer)))"
    if t: "truthy (defaultLabel renderer)" and s: "defaultSymbol renderer = Some s"
      and ty: "r_type renderer = Some UNIQUE_VALUE \<or> r_type renderer = Some CLASS_BREAKS" for s
  proof -
    from t obtain l where l: "defaultLabel renderer = Some l"
      by (cases "defaultLabel renderer") (simp_all add: truthy_def)
    from s l have db: "defaultBranch renderer = [(Some s, defaultLabel renderer)]"
      by (simp add: defaultBranch_def)
    from ty obtain earlier where "branches renderer = earlier @ (Some s, defaultLabel renderer) # []"
      unfolding branches_def db by (auto simp: type_names_distinct)
    then show ?thesis by (rule att)
  qed
  from enhanceRenderer_result[OF rendererToLegend_layers, of renderer rt renderer index]
  obtain r' lg where run: "enhanceRenderer renderer (fst (rendererToLegend rt renderer index)) = Inr (r', lg)"
    and simple: "r_type renderer = Some SIMPLE \<longrightarrow>
        r_imageUrl r' = getProperty ?look (strOrUndefined (r_label renderer))"
    and uv: "r_type renderer = Some UNIQUE_VALUE \<longrightarrow>
        uniqueValueInfos r' =
          map (\<lambda>uvi. uvi\<lparr>uvi_imageUrl := getProperty ?look (strOrUndefined (uvi_label uvi))\<rparr>)
            (uniqueValueInfos renderer) \<and>
        (truthy (defaultLabel renderer) \<longrightarrow>
           defaultImageUrl r' = getProperty ?look (strOrUndefined (defaultLabel renderer)))"
    and cb: "r_type renderer = Some CLASS_BREAKS \<longrightarrow>
        classBreakInfos r' =
          map (\<lambda>cbi. cbi\<lparr>cbi_imageUrl := getProperty ?look (strOrUndefined (cbi_label cbi))\<rparr>)
            (classBreakInfos renderer) \<and>
        (truthy (defaultLabel renderer) \<longrightarrow>
           defaultImageUrl r' = getProperty ?look (strOrUndefined (defaultLabel renderer)))"
    by blast
  have c1: "r_type renderer = Some SIMPLE \<longrightarrow>
         attached rt (r_symbol renderer, r_label renderer) [] (r_imageUrl r')"
  proof
    assume ty: "r_type renderer = Some SIMPLE"
    then have "branches renderer = [] @ (r_symbol renderer, r_label renderer) # []"
      by (simp add: branches_def)
    from att[OF this] simple ty
    show "attached rt (r_symbol renderer, r_label renderer) [] (r_imageUrl r')"
      by simp
  qed
  have c2: "r_type renderer = Some UNIQUE_VALUE \<longrightarrow>
         length (uniqueValueInfos r') = length (uniqueValueInfos renderer) \<and>
         (\<forall>i<length (uniqueValueInfos renderer).
            attached rt (uvi_symbol (uniqueValueInfos renderer ! i),
                         uvi_label (uniqueValueInfos renderer ! i))
              (drop (Suc i) (branches renderer))
              (uvi_imageUrl (uniqueValueInfos r' ! i))) \<and>
         (truthy (defaultLabel renderer) \<longrightarrow>
            (\<forall>d. defaultSymbol renderer = Some d \<longrightarrow>
               attached rt (Some d, defaultLabel renderer) [] (defaultImageUrl r')))"
  proof (intro impI conjI allI)
    assume ty: "r_type renderer = Some UNIQUE_VALUE"
    from uv ty have infos: "uniqueValueInfos r' =
          map (\<lambda>uvi. uvi\<lparr>uvi_imageUrl := getProperty ?look (strOrUndefined (uvi_label uvi))\<rparr>)
            (uniqueValueInfos renderer)" by blast
    then show "length (uniqueValueInfos r') = length (uniqueValueInfos renderer)" by simp
    from ty have bs: "branches renderer =
        map (\<lambda>uvi. (uvi_symbol uvi, uvi_label uvi)) (uniqueValueInfos renderer) @
        defaultBranch renderer"
      by (simp add: branches_def type_names_distinct)
    {
      fix i assume i: "i < length (uniqueValueInfos renderer)"
      let ?u = "uniqueValueInfos renderer ! i"
      have "branches renderer =
          take i (branches renderer) @ (uvi_symbol ?u, uvi_label ?u) #
          drop (Suc i) (branches renderer)"
        unfolding bs by (rule branches_split[OF i])
      from att[OF this] infos i
      show "attached rt (uvi_symbol ?u, uvi_label ?u) (drop (Suc i) (branches renderer))
              (uvi_imageUrl (uniqueValueInfos r' ! i))"
        by simp
    }
    {
      fix s assume t: "truthy (defaultLabel renderer)" and s: "defaultSymbol renderer = Some s"
      from uv ty t have "defaultImageUrl r' = getProperty ?look (strOrUndefined (defaultLabel renderer))"
        by blast
      with dflt[OF t s] ty show "attached rt (Some s, defaultLabel renderer) [] (defaultImageUrl r')"
        by simp
    }
  qed
  have c3: "r_type renderer = Some CLASS_BREAKS \<longrightarrow>
         length (classBreakInfos r') = length (classBreakInfos renderer) \<and>
         (\<forall>i<length (classBreakInfos renderer).
            attached rt (cbi_symbol (classBreakInfos renderer ! i),
                         cbi_label (classBreakInfos renderer ! i))
              (drop (Suc i) (branches renderer))
              (cbi_imageUrl (classBreakInfos r' ! i))) \<and>
         (truthy (defaultLabel renderer) \<longrightarrow>
            (\<forall>d. defaultSymbol renderer = Some d \<longrightarrow>
               attached rt (Some d, defaultLabel renderer) [] (defaultImageUrl r')))"
  proof (intro impI conjI allI)
    assume ty: "r_type renderer = Some CLASS_BREAKS"
    from cb ty have infos: "classBreakInfos r' =
          map (\<lambda>cbi. cbi\<lparr>cbi_imageUrl := getProperty ?look (strOrUndefined (cbi_label cbi))\<rparr>)
            (classBreakInfos renderer)" by blast
    then show "length (classBreakInfos r') = length (classBreakInfos renderer)" by simp
    from ty have bs: "branches renderer =
        map (\<lambda>cbi. (cbi_symbol cbi, cbi_label cbi)) (classBreakInfos renderer) @
        defaultBranch renderer"
      by (simp add: branches_def type_names_distinct)
    {
      fix i assume i: "i < length (classBreakInfos renderer)"
      let ?c = "classBreakInfos renderer ! i"
      have "branches renderer =
          take i (branches renderer) @ (cbi_symbol ?c, cbi_label ?c) #
          drop (Suc i) (branches renderer)"
        unfolding bs by (rule branches_split[OF i])
      from att[OF this] infos i
      show "attached rt (cbi_symbol ?c, cbi_label ?c) (drop (Suc i) (branches renderer))
              (cbi_imageUrl (classBreakInfos r' ! i))"
        by simp
    }
    {
      fix s assume t: "truthy (defaultLabel renderer)" and s: "defaultSymbol renderer = Some s"
      from cb ty t have "defaultImageUrl r' = getProperty ?look (strOrUndefined (defaultLabel renderer))"
        by blast
      with dflt[OF t s] ty show "attached rt (Some s, defaultLabel renderer) [] (defaultImageUrl r')"
        by simp
    }
  qed
  from run c1 c2 c3
  show "\<exists>r' lg. enhanceRenderer renderer (fst (rendererToLegend rt renderer index)) = Inr (r', lg) \<and>
      (r_type renderer = Some SIMPLE \<longrightarrow>
         attached rt (r_symbol renderer, r_label renderer) [] (r_imageUrl r')) \<and>
      (r_type renderer = Some UNIQUE_VALUE \<longrightarrow>
         length (uniqueValueInfos r') = length (uniqueValueInfos renderer) \<and>
         (\<forall>i<length (uniqueValueInfos renderer).
            attached rt (uvi_symbol (uniqueValueInfos renderer ! i),
                         uvi_label (uniqueValueInfos renderer ! i))
              (drop (Suc i) (branches renderer))
              (uvi_imageUrl (uniqueValueInfos r' ! i))) \<and>
         (truthy (defaultLabel renderer) \<longrightarrow>
            (\<forall>d. defaultSymbol renderer = Some d \<longrightarrow>
               attached rt (Some d, defaultLabel renderer) [] (defaultImageUrl r')))) \<and>
      (r_type renderer = Some CLASS_BREAKS \<longrightarrow>
         length (classBreakInfos r') = length (classBreakInfos renderer) \<and>
         (\<forall>i<length (classBreakInfos renderer).
            attached rt (cbi_symbol (classBreakInfos renderer ! i),
                         cbi_label (classBreakInfos renderer ! i))
              (drop (Suc i) (branches renderer))
              (cbi_imageUrl (classBreakInfos r' ! i))) \<and>
         (truthy (defaultLabel renderer) \<longrightarrow>
            (\<forall>d. defaultSymbol renderer = Some d \<longrightarrow>
               attached rt (Some d, defaultLabel renderer) [] (defaultImageUrl r'))))"
    by (intro exI[of _ r'] exI[of _ lg] conjI)
qed

lemma placesRenderer_branches:
  "branches placesRenderer =
     [(Some textSymbol, Some ''Names''), (Some lineSymbol, Some ''Roads''),
      (Some textSymbol, Some ''Places'')]"
  by (simp add: branches_def defaultBranch_def placesRenderer_def blankRenderer_def type_names_distinct)

lemma placesRenderer_labels:
  "map li_label (map (legendEntry rt) (branches placesRenderer)) =
     [Some ''Error!'', Some ''Roads'', Some ''Error!'']"
proof -
  have t: "li_label (legendEntry rt (Some textSymbol, l)) = Some ''Error!''" for l
    by (simp add: legendEntry_def symbolToLegend_text textSymbol_def errorItem_def blankItem_def)
  have r: "li_label (legendEntry rt (Some lineSymbol, Some ''Roads'')) = Some ''Roads''"
    using symbolToLegend_no_raise[OF lineSymbol_converts, of rt "Some ''Roads''"]
    by (simp add: legendEntry_def)
  show ?thesis by (simp add: placesRenderer_branches t r)
qed

theorem legend_round_trip_witness:
  "map li_label (legend (hd (layers (fst (rendererToLegend sampleRuntime placesRenderer 0))))) =
     [Some ''Error!'', Some ''Roads'', Some ''Error!''] \<and>
   (\<exists>r' lg. enhanceRenderer placesRenderer (fst (rendererToLegend sampleRuntime placesRenderer 0)) =
              Inr (r', lg) \<and>
     uvi_imageUrl (uniqueValueInfos r' ! 1) =
       Value (dataUrl (legendEntry sampleRuntime (Some lineSymbol, Some ''Roads''))))"
proof -
  have labels: "map li_label (legend (hd (layers (fst (rendererToLegend sampleRuntime placesRenderer 0))))) =
     [Some ''Error!'', Some ''Roads'', Some ''Error!'']"
    using placesRenderer_labels[of sampleRuntime] by (simp add: rendererToLegend_layers)
  have d: "distinct (map branchKey (branches placesRenderer))"
    by (simp add: placesRenderer_branches branchKey_def strOrUndefined_def)
  have ty: "r_type placesRenderer = Some UNIQUE_VALUE"
    and len: "1 < length (uniqueValueInfos placesRenderer)"
    and br: "uvi_symbol (uniqueValueInfos placesRenderer ! 1) = Some lineSymbol"
      "uvi_label (uniqueValueInfos placesRenderer ! 1) = Some ''Roads''"
    by (simp_all add: placesRenderer_def blankRenderer_def)
  from legend_round_trip [of placesRenderer sampleRuntime 0] d ty
  obtain r' lg where run:
      "enhanceRenderer placesRenderer (fst (rendererToLegend sampleRuntime placesRenderer 0)) = Inr (r', lg)"
    and each: "\<forall>i<length (uniqueValueInfos placesRenderer).
            attached sampleRuntime (uvi_symbol (uniqueValueInfos placesRenderer ! i),
                         uvi_label (uniqueValueInfos placesRenderer ! i))
              (drop (Suc i) (branches placesRenderer))
              (uvi_imageUrl (uniqueValueInfos r' ! i))"
    by blast
  from each len have "attached sampleRuntime (uvi_symbol (uniqueValueInfos placesRenderer ! 1),
                         uvi_label (uniqueValueInfos placesRenderer ! 1))
              (drop (Suc 1) (branches placesRenderer))
              (uvi_imageUrl (uniqueValueInfos r' ! 1))"
    by blast
  then have "uvi_imageUrl (uniqueValueInfos r' ! 1) =
       Value (dataUrl (legendEntry sampleRuntime (Some lineSymbol, Some ''Roads'')))"
    unfolding br attached_def using lineSymbol_converts[of sampleRuntime]
    by (simp add: branchKey_def strOrUndefined_def)
  with run labels show ?thesis by blast
qed

text \<open>
  C4 as stated (every branch of a renderer with distinct labels gets the data URL of its
  legend entry) fails on a branch with a text symbol: the legend entry of the branch
  \<open>Names\<close> is stored under \<open>Error!\<close>, the lookup of \<open>Names\<close> finds nothing, and the
  branch gets \<open>undefined\<close> instead of the data URL of its entry.
\<close>

theorem legend_round_trip_counterexample:
  "legend (hd (layers (fst (rendererToLegend sampleRuntime namesRenderer 0)))) = [errorItem] \<and>
   dataUrl errorItem =
     ''data:image/svg+xml,<svg xmlns='http://www.w3.org/2000/svg' width='32' height='32'></svg>'' \<and>
   enhanceRenderer namesRenderer (fst (rendererToLegend sampleRuntime namesRenderer 0)) =
     Inr (namesRenderer\<lparr>r_imageUrl := Undefined\<rparr>, [])"
proof -
  have b: "branches namesRenderer = [(Some textSymbol, Some ''Names'')]"
    by (simp add: branches_def namesRenderer_def blankRenderer_def)
  have e: "legendEntry sampleRuntime (Some textSymbol, Some ''Names'') = errorItem"
    by (simp add: legendEntry_def symbolToLegend_text textSymbol_def)
  have l: "layers (fst (rendererToLegend sampleRuntime namesRenderer 0)) =
      [\<lparr>layerId = 0, legend = [errorItem]\<rparr>]"
    by (simp add: rendererToLegend_layers b e)
  have u: "dataUrl errorItem =
     ''data:image/svg+xml,<svg xmlns='http://www.w3.org/2000/svg' width='32' height='32'></svg>''"
    by (simp add: dataUrl_def errorItem_def blankItem_def strOrUndefined_def emptySVG_def)
  have f: "r_type namesRenderer = Some SIMPLE" "r_label namesRenderer = Some ''Names''"
    by (simp_all add: namesRenderer_def blankRenderer_def)
  have g: "getProperty (legendLookup [errorItem]) ''Names'' = Undefined"
    by (simp add: legendLookup_def setProperty_def getProperty_def errorItem_def blankItem_def
        strOrUndefined_def objectPrototypeKeys_def)
  have "enhanceRenderer namesRenderer (fst (rendererToLegend sampleRuntime namesRenderer 0)) =
     Inr (namesRenderer\<lparr>r_imageUrl := Undefined\<rparr>, [])"
    using g f by (simp add: enhanceRenderer_def l Let_def strOrUndefined_def)
  with l u show ?thesis by simp
qed

text \<open>
  The condition on the label \<open>Error!\<close> is needed. A picture symbol converts, and its
  entry keeps the label of the branch, here \<open>Error!\<close>; the text symbol after it fails
  and its blank entry is stored under \<open>Error!\<close> too, over the first. The labels of the
  two branches are distinct, and the first branch gets the blank image instead of its
  picture.
\<close>

lemma error_label_collision:
  "distinct (map branchKey (branches errorLabelRenderer)) \<and>
   \<not> conversionRaises sampleRuntime (Some pictureSymbol) \<and>
   dataUrl (legendEntry sampleRuntime (Some pictureSymbol, Some ''Error!'')) =
     ''data:image/png;base64,iVBORw0KGgo='' \<and>
   (\<exists>r' lg. enhanceRenderer errorLabelRenderer
               (fst (rendererToLegend sampleRuntime errorLabelRenderer 0)) = Inr (r', lg) \<and>
      map uvi_imageUrl (uniqueValueInfos r') = [Value (dataUrl errorItem), Undefined])"
proof -
  have b: "branches errorLabelRenderer =
      [(Some pictureSymbol, Some ''Error!''), (Some textSymbol, Some ''Names'')]"
    by (simp add: branches_def defaultBranch_def errorLabelRenderer_def blankRenderer_def
        type_names_distinct)
  have d: "distinct (map branchKey (branches errorLabelRenderer))"
    by (simp add: b branchKey_def strOrUndefined_def)
  have c: "\<not> conversionRaises sampleRuntime (Some pictureSymbol)"
    by (simp add: conversionRaises_def symbolToLegend_try_def pictureSymbol_def)
  have p: "legendEntry sampleRuntime (Some pictureSymbol, Some ''Error!'') =
      \<lparr>li_label = Some ''Error!'', li_imageData = Some ''iVBORw0KGgo='',
       li_contentType = Some ''image/png'', li_base = '';base64''\<rparr>"
    by (simp add: legendEntry_def symbolToLegend_def symbolToLegend_try_def pictureSymbol_def)
  have u: "dataUrl (legendEntry sampleRuntime (Some pictureSymbol, Some ''Error!'')) =
     ''data:image/png;base64,iVBORw0KGgo=''"
    unfolding p by (simp add: dataUrl_def strOrUndefined_def)
  have e: "legendEntry sampleRuntime (Some textSymbol, Some ''Names'') = errorItem"
    by (simp add: legendEntry_def symbolToLegend_text textSymbol_def)
  have l: "layers (fst (rendererToLegend sampleRuntime errorLabelRenderer 0)) =
      [\<lparr>layerId = 0, legend = [legendEntry sampleRuntime (Some pictureSymbol, Some ''Error!''),
                                errorItem]\<rparr>]"
    by (simp add: rendererToLegend_layers b e)
  have k: "labelKey (legendEntry sampleRuntime (Some pictureSymbol, Some ''Error!'')) = ''Error!''"
    "labelKey errorItem = ''Error!''"
    by (simp_all add: p labelKey_def errorItem_def blankItem_def strOrUndefined_def)
  have look: "legendLookup [legendEntry sampleRuntime (Some pictureSymbol, Some ''Error!''), errorItem] =
      [''Error!'' \<mapsto> dataUrl errorItem]"
    by (simp add: legendLookup_def setProperty_def k[unfolded labelKey_def])
  have g: "getProperty [''Error!'' \<mapsto> dataUrl errorItem] ''Error!'' = Value (dataUrl errorItem)"
    "getProperty [''Error!'' \<mapsto> dataUrl errorItem] ''Names'' = Undefined"
    by (simp_all add: getProperty_def objectPrototypeKeys_def)
  have ty: "r_type errorLabelRenderer = Some UNIQUE_VALUE"
    and infos: "map uvi_label (uniqueValueInfos errorLabelRenderer) = [Some ''Error!'', Some ''Names'']"
    by (simp_all add: errorLabelRenderer_def blankRenderer_def)
  from enhanceRenderer_result[OF l, of errorLabelRenderer] ty
  obtain r' lg where run: "enhanceRenderer errorLabelRenderer
               (fst (rendererToLegend sampleRuntime errorLabelRenderer 0)) = Inr (r', lg)"
    and res: "uniqueValueInfos r' =
          map (\<lambda>uvi. uvi\<lparr>uvi_imageUrl :=
                 getProperty (legendLookup [legendEntry sampleRuntime (Some pictureSymbol, Some ''Error!''),
                                            errorItem]) (strOrUndefined (uvi_label uvi))\<rparr>)
            (uniqueValueInfos errorLabelRenderer)"
    by blast
  have "map uvi_imageUrl (uniqueValueInfos r') = [Value (dataUrl errorItem), Undefined]"
    unfolding res look using g
    by (simp add: errorLabelRenderer_def blankRenderer_def strOrUndefined_def)
  with run have ex: "\<exists>r' lg. enhanceRenderer errorLabelRenderer
               (fst (rendererToLegend sampleRuntime errorLabelRenderer 0)) = Inr (r', lg) \<and>
      map uvi_imageUrl (uniqueValueInfos r') = [Value (dataUrl errorItem), Undefined]"
    by (intro exI[of _ r'] exI[of _ lg] conjI)
  from d c u ex show ?thesis by (intro conjI)
qed

end
